theory Spec2Isabelle
  imports Complex_Main "HOL-Library.Sublist"
begin

section \<open>Numbers, nullable values and errors\<close>

text \<open>
  JavaScript numbers are modelled as the real numbers: every formula of the source is read
  as exact arithmetic (no rounding, no NaN, no infinities), with one exception: the index
  \<^verbatim>\<open>Math.floor(moveSeg.length * 0.7)\<close> is computed as double precision computes it (see
  \<open>finalPhaseStart\<close>), since rounding changes it. On finite inputs the extractor guards every
  division, so no NaN arises there. A value that JavaScript holds as
  \<^verbatim>\<open>null\<close>, as \<^verbatim>\<open>undefined\<close> or as an absent property is \<open>None\<close>: the source tests
  such values with \<^verbatim>\<open>v != null\<close> and with optional chaining only, which do not tell the
  three apart.
\<close>

type_synonym point = "real \<times> real"

text \<open>
  \<open>TypeError\<close> and \<open>Error msg\<close> are exceptions of the source; \<open>ValidationError\<close> is the
  exception of \<^verbatim>\<open>save()\<close> and \<^verbatim>\<open>create()\<close> for a document that does not satisfy its schema.
\<close>

datatype js_error = TypeError | Error string | ValidationError

text \<open>\<^verbatim>\<open>Math.hypot(dx, dy)\<close> and the helper \<^verbatim>\<open>dist(a, b)\<close> of featureExtraction.\<close>

definition hypot :: "real \<Rightarrow> real \<Rightarrow> real" where
  "hypot a b = sqrt (a * a + b * b)"

definition dist_pt :: "point \<Rightarrow> point \<Rightarrow> real" where
  "dist_pt a b = (let dx = fst a - fst b; dy = snd a - snd b in hypot dx dy)"

text \<open>
  \<^verbatim>\<open>movingAverage(arr, w)\<close>: a copy of the array when it is shorter than the window,
  otherwise the mean over the indices \<open>k\<close> of \<open>[i - floor(w/2), i + floor(w/2)]\<close> that lie
  inside the array.
\<close>

definition movingAverage :: "real list \<Rightarrow> nat \<Rightarrow> real list" where
  "movingAverage arr w =
     (if length arr < w then arr
      else map (\<lambda>i.
             let ks = filter (\<lambda>k. 0 \<le> k \<and> k < int (length arr))
                        [int i - int (w div 2) .. int i + int (w div 2)];
                 s = sum_list (map (\<lambda>k. arr ! nat k) ks);
                 c = length ks
             in s / real c) [0..<length arr])"

section \<open>Data model\<close>

record sample =
  s_round :: nat
  s_tms :: real
  s_x :: real
  s_y :: real
  s_isDown :: bool
  s_pointerType :: string

record target =
  t_x :: real
  t_y :: real
  t_radius :: real

record timing =
  reactionTimeMs :: "real option"
  movementTimeMs :: "real option"
  interTapMs :: "real option"

record spatial =
  errorDistNorm :: "real option"
  pathLengthNorm :: "real option"
  directDistNorm :: "real option"
  straightness :: "real option"

record kinematics =
  meanSpeed :: "real option"
  peakSpeed :: "real option"
  speedVar :: "real option"
  meanAccel :: "real option"
  peakAccel :: "real option"
  jerkRMS :: "real option"
  submovementCount :: "real option"
  overshootCount :: "real option"

record fitts =
  f_D :: "real option"
  f_W :: "real option"
  f_ID :: "real option"
  f_throughput :: "real option"

record features =
  timing :: timing
  spatial :: spatial
  kinematics :: kinematics
  fitts :: fitts

text \<open>The empty object literals \<^verbatim>\<open>{}\<close> of the source: every property absent.\<close>

definition empty_spatial :: spatial where
  "empty_spatial = \<lparr>errorDistNorm = None, pathLengthNorm = None, directDistNorm = None,
     straightness = None\<rparr>"

definition empty_kinematics :: kinematics where
  "empty_kinematics = \<lparr>meanSpeed = None, peakSpeed = None, speedVar = None, meanAccel = None,
     peakAccel = None, jerkRMS = None, submovementCount = None, overshootCount = None\<rparr>"

definition empty_fitts :: fitts where
  "empty_fitts = \<lparr>f_D = None, f_W = None, f_ID = None, f_throughput = None\<rparr>"

definition pos :: "sample \<Rightarrow> point" where
  "pos s = (s_x s, s_y s)"

definition centre :: "target \<Rightarrow> point" where
  "centre tg = (t_x tg, t_y tg)"

section \<open>The attempt feature extractor\<close>

text \<open>Step 1: the samples of the window \<open>[spawnTms, clickTms]\<close>.\<close>

definition segment :: "sample list \<Rightarrow> real \<Rightarrow> real \<Rightarrow> sample list" where
  "segment samples spawnTms clickTms =
     filter (\<lambda>s. s_tms s \<ge> spawnTms \<and> s_tms s \<le> clickTms) samples"

text \<open>
  Step 2: the loop that looks for the first index \<open>i \<ge> 1\<close> whose displacement from the first
  point exceeds \<open>EPS\<close>, and breaks with \<open>startIdx = i - 1\<close>; \<open>startIdx\<close> stays \<open>0\<close> otherwise.
\<close>

definition EPS :: real where
  "EPS = 0.003"

definition startIdx :: "sample list \<Rightarrow> nat" where
  "startIdx seg =
     (case seg of [] \<Rightarrow> 0
      | s0 # _ \<Rightarrow>
         (case find (\<lambda>i. dist_pt (pos (seg ! i)) (pos s0) > EPS) [1..<length seg] of
            None \<Rightarrow> 0
          | Some i \<Rightarrow> i - 1))"

definition moveSegOf :: "sample list \<Rightarrow> sample list" where
  "moveSegOf seg = drop (startIdx seg) seg"

text \<open>Step 3: the path length, accumulated over \<open>i = 1 .. length - 1\<close>.\<close>

definition pathLength :: "sample list \<Rightarrow> real" where
  "pathLength moveSeg =
     fold (\<lambda>i acc. acc + dist_pt (pos (moveSeg ! (i - 1))) (pos (moveSeg ! i)))
       [1..<length moveSeg] 0"

text \<open>
  Step 4.1: velocities. The three arrays \<open>vx\<close>, \<open>vy\<close>, \<open>speed\<close> grow together; a step with
  \<open>dt \<le> 0\<close> is skipped.
\<close>

definition velocities :: "real list \<Rightarrow> real list \<Rightarrow> real list \<Rightarrow> real list \<times> real list \<times> real list" where
  "velocities t xs ys =
     fold (\<lambda>i (vx, vy, speed).
             let dt = t ! i - t ! (i - 1) in
             if dt \<le> 0 then (vx, vy, speed)
             else let vxi = (xs ! i - xs ! (i - 1)) / dt;
                      vyi = (ys ! i - ys ! (i - 1)) / dt
                  in (vx @ [vxi], vy @ [vyi], speed @ [hypot vxi vyi]))
       [1..<length t] ([], [], [])"

text \<open>
  Step 4.2: accelerations from the velocities, with \<open>dt = t[i+1] - t[i]\<close>. A read of \<open>t\<close>
  past its end is \<^verbatim>\<open>undefined\<close> in JavaScript, \<open>dt\<close> is then NaN and \<^verbatim>\<open>!dt\<close> skips the
  step; \<open>dt = 0\<close> is skipped by \<^verbatim>\<open>!dt\<close> too.
\<close>

definition accelerations :: "real list \<Rightarrow> real list \<Rightarrow> real list \<Rightarrow> real list \<times> real list \<times> real list" where
  "accelerations t vx vy =
     fold (\<lambda>i (ax, ay, acc).
             if \<not> (i + 1 < length t) then (ax, ay, acc)
             else let dt = t ! (i + 1) - t ! i in
               if dt = 0 \<or> dt \<le> 0 then (ax, ay, acc)
               else let axi = (vx ! i - vx ! (i - 1)) / dt;
                        ayi = (vy ! i - vy ! (i - 1)) / dt
                    in (ax @ [axi], ay @ [ayi], acc @ [hypot axi ayi]))
       [1..<length vx] ([], [], [])"

text \<open>Step 4.3: jerk from the accelerations, with \<open>dt = t[i+2] - t[i+1]\<close>.\<close>

definition jerks :: "real list \<Rightarrow> real list \<Rightarrow> real list \<Rightarrow> real list" where
  "jerks t ax ay =
     fold (\<lambda>i jerk.
             if \<not> (i + 2 < length t) then jerk
             else let dt = t ! (i + 2) - t ! (i + 1) in
               if dt = 0 \<or> dt \<le> 0 then jerk
               else let jx = (ax ! i - ax ! (i - 1)) / dt;
                        jy = (ay ! i - ay ! (i - 1)) / dt
                    in jerk @ [hypot jx jy])
       [1..<length ax] []"

definition mean_or_null :: "real list \<Rightarrow> real option" where
  "mean_or_null arr = (if length arr \<noteq> 0 then Some (fold (\<lambda>b a. a + b) arr 0 / real (length arr)) else None)"

definition max_or_null :: "real list \<Rightarrow> real option" where
  "max_or_null arr = (if length arr \<noteq> 0 then Some (Max (set arr)) else None)"

definition speedVarOf :: "real list \<Rightarrow> real option \<Rightarrow> real option" where
  "speedVarOf speed meanSpeed' =
     (case meanSpeed' of
        Some m \<Rightarrow> if length speed \<noteq> 0
                  then Some (fold (\<lambda>b a. a + (b - m) ^ 2) speed 0 / real (length speed))
                  else None
      | None \<Rightarrow> None)"

definition jerkRMSOf :: "real list \<Rightarrow> real option" where
  "jerkRMSOf jerk =
     (if length jerk \<noteq> 0
      then Some (sqrt (fold (\<lambda>b a. a + b * b) jerk 0 / real (length jerk)))
      else None)"

text \<open>Step 5: strict local maxima of the smoothed speed at or above \<open>0.15 \<times> peakSpeed\<close>.\<close>

definition submovements :: "real list \<Rightarrow> real option \<Rightarrow> nat" where
  "submovements speed peakSpeed' =
     (let smoothedSpeed = movingAverage speed 5 in
      case peakSpeed' of
        None \<Rightarrow> 0
      | Some p \<Rightarrow>
          let vThresh = 0.15 * p in
          fold (\<lambda>i c. if smoothedSpeed ! (i - 1) < smoothedSpeed ! i \<and>
                          smoothedSpeed ! i > smoothedSpeed ! (i + 1) \<and>
                          smoothedSpeed ! i \<ge> vThresh
                       then c + 1 else c)
            [1..<length smoothedSpeed - 1] 0)"

text \<open>
  Step 6: the three overshoot detectors. \<open>d\<close> is the distance of each sample of the moving
  segment to the target, \<open>gate = 4 \<times> radius\<close>.
\<close>

definition distances :: "sample list \<Rightarrow> target \<Rightarrow> real list" where
  "distances seg tg = map (\<lambda>s. dist_pt (pos s) (centre tg)) seg"

definition reversalCount :: "real list \<Rightarrow> real \<Rightarrow> nat" where
  "reversalCount d gate =
     fold (\<lambda>i c. let ddPrev = d ! (i - 1) - d ! (i - 2); dd = d ! i - d ! (i - 1) in
                  if ddPrev < - 0.001 \<and> dd > 0.001 \<and> d ! i < gate then c + 1 else c)
       [2..<length d] 0"

text \<open>
  \<^verbatim>\<open>Math.floor(moveSeg.length * 0.7)\<close> in IEEE 754 double precision, on integers. The literal
  \<open>0.7\<close> is the double \<open>6305039478318694 / 2^53\<close>. The product of a length \<open>n\<close> with it is the
  exact product \<open>p / 2^53\<close>, where \<open>p = n * 6305039478318694\<close>, rounded to 53 significant bits,
  ties to even: with \<open>k\<close> the number of bits of \<open>p\<close> beyond 53, \<open>p\<close> is rounded to a multiple of
  \<open>2^k\<close>. The floor of the rounded product is its quotient by \<open>2^53\<close>. The result is one below
  the floor of the exact \<open>0.7 n\<close> at \<open>n = 90, 170, 180, 330, \<dots>\<close>
\<close>

fun bitLength :: "nat \<Rightarrow> nat" where
  "bitLength n = (if n = 0 then 0 else Suc (bitLength (n div 2)))"

declare bitLength.simps [simp del]

definition double_0_7 :: nat where
  "double_0_7 = 6305039478318694"

definition roundToDouble :: "nat \<Rightarrow> nat" where
  "roundToDouble p =
     (let k = bitLength p - 53;
          q = p div 2 ^ k;
          r = p mod 2 ^ k
      in if 2 * r > 2 ^ k \<or> (2 * r = 2 ^ k \<and> odd q) then (q + 1) * 2 ^ k else q * 2 ^ k)"

definition finalPhaseStart :: "nat \<Rightarrow> nat" where
  "finalPhaseStart n = roundToDouble (n * double_0_7) div 2 ^ 53"

definition finalPhaseOvershoots :: "sample list \<Rightarrow> target \<Rightarrow> nat" where
  "finalPhaseOvershoots moveSeg tg =
     (if length moveSeg > 5
      then let finalSeg = drop (finalPhaseStart (length moveSeg)) moveSeg;
               finalD = map (\<lambda>s. dist_pt (pos s) (centre tg)) finalSeg
           in fold (\<lambda>i c. let ddPrev = finalD ! (i - 1) - finalD ! (i - 2);
                               dd = finalD ! i - finalD ! (i - 1) in
                           if ddPrev < - 0.001 \<and> dd > 0.001 then c + 1 else c)
                [2..<length finalD] 0
      else 0)"

definition xReversal :: "sample list \<Rightarrow> nat \<Rightarrow> bool" where
  "xReversal moveSeg i =
     (let dxPrev = s_x (moveSeg ! (i - 1)) - s_x (moveSeg ! (i - 2));
          dx = s_x (moveSeg ! i) - s_x (moveSeg ! (i - 1))
      in (dxPrev > 0.002 \<and> dx < - 0.002) \<or> (dxPrev < - 0.002 \<and> dx > 0.002))"

definition yReversal :: "sample list \<Rightarrow> nat \<Rightarrow> bool" where
  "yReversal moveSeg i =
     (let dyPrev = s_y (moveSeg ! (i - 1)) - s_y (moveSeg ! (i - 2));
          dy = s_y (moveSeg ! i) - s_y (moveSeg ! (i - 1))
      in (dyPrev > 0.002 \<and> dy < - 0.002) \<or> (dyPrev < - 0.002 \<and> dy > 0.002))"

definition oscillationCount :: "sample list \<Rightarrow> real list \<Rightarrow> real \<Rightarrow> nat" where
  "oscillationCount moveSeg d gate =
     (if length moveSeg > 4
      then fold (\<lambda>i c. if d ! i < gate
                        then (if xReversal moveSeg i \<or> yReversal moveSeg i then c + 1 else c)
                        else c)
             [3..<length moveSeg] 0
      else 0)"

definition overshoots :: "sample list \<Rightarrow> target \<Rightarrow> nat" where
  "overshoots moveSeg tg =
     (let d = distances moveSeg tg;
          gate = 4 * t_radius tg;
          overshootCount' = reversalCount d gate;
          finalPhaseOvershoots' = finalPhaseOvershoots moveSeg tg;
          oscillationCount' = oscillationCount moveSeg d gate
      in max overshootCount' (max finalPhaseOvershoots' oscillationCount'))"

text \<open>
  The whole function. The read \<^verbatim>\<open>seg[0].x\<close> comes after the test \<^verbatim>\<open>seg.length < 4\<close>, so
  \<open>seg\<close> is not empty there. The reads \<^verbatim>\<open>moveSeg[0].x\<close> and
  \<^verbatim>\<open>moveSeg[moveSeg.length - 1].x\<close> raise a TypeError in JavaScript when \<open>moveSeg\<close> is
  empty; the model returns that error as \<open>Inl TypeError\<close>.
\<close>

definition extractAttemptFeatures ::
  "sample list \<Rightarrow> real \<Rightarrow> real \<Rightarrow> target \<Rightarrow> real option \<Rightarrow> js_error + features" where
  "extractAttemptFeatures samples spawnTms clickTms tg prevClickTms =
     (let seg = segment samples spawnTms clickTms in
      if length seg < 4 then
        Inr \<lparr>timing = \<lparr>reactionTimeMs = Some (clickTms - spawnTms),
                        movementTimeMs = None,
                        interTapMs = (case prevClickTms of Some p \<Rightarrow> Some (clickTms - p)
                                      | None \<Rightarrow> None)\<rparr>,
             spatial = empty_spatial, kinematics = empty_kinematics, fitts = empty_fitts\<rparr>
      else
        let moveSeg = moveSegOf seg in
        if moveSeg = [] then Inl TypeError
        else
          let moveStart = pos (moveSeg ! 0);
              moveEnd = pos (moveSeg ! (length moveSeg - 1));
              reactionTimeMs' = clickTms - spawnTms;
              movementTimeMs' = s_tms (moveSeg ! (length moveSeg - 1)) - s_tms (moveSeg ! 0);
              pathLength' = pathLength moveSeg;
              directDist = dist_pt moveStart (centre tg);
              straightness' = (if pathLength' > 0 then Some (directDist / pathLength') else None);
              clickPos = moveEnd;
              errorDist = dist_pt clickPos (centre tg);
              errorDistNorm' = (if t_radius tg > 0 then Some (errorDist / t_radius tg) else None);
              t = map (\<lambda>s. s_tms s / 1000) moveSeg;
              x = map s_x moveSeg;
              y = map s_y moveSeg;
              (vx, vy, speed) = velocities t x y;
              meanSpeed' = mean_or_null speed;
              peakSpeed' = max_or_null speed;
              speedVar' = speedVarOf speed meanSpeed';
              (ax, ay, acc) = accelerations t vx vy;
              meanAccel' = mean_or_null acc;
              peakAccel' = max_or_null acc;
              jerk = jerks t ax ay;
              jerkRMS' = jerkRMSOf jerk;
              submovementCount' = submovements speed peakSpeed';
              overshootCount' = overshoots moveSeg tg;
              D = directDist;
              W = 2 * t_radius tg;
              ID = (if W > 0 then Some (log 2 (D / W + 1)) else None);
              mtSec = Some (max (movementTimeMs' / 1000) 0.05);
              throughput = (case (ID, mtSec) of (Some i, Some m) \<Rightarrow> Some (i / m) | _ \<Rightarrow> None)
          in Inr \<lparr>timing = \<lparr>reactionTimeMs = Some reactionTimeMs',
                              movementTimeMs = Some movementTimeMs',
                              interTapMs = (case prevClickTms of Some p \<Rightarrow> Some (clickTms - p)
                                            | None \<Rightarrow> None)\<rparr>,
                  spatial = \<lparr>errorDistNorm = errorDistNorm',
                               pathLengthNorm = Some pathLength',
                               directDistNorm = Some directDist,
                               straightness = straightness'\<rparr>,
                  kinematics = \<lparr>meanSpeed = meanSpeed', peakSpeed = peakSpeed',
                                  speedVar = speedVar', meanAccel = meanAccel',
                                  peakAccel = peakAccel', jerkRMS = jerkRMS',
                                  submovementCount = Some (real submovementCount'),
                                  overshootCount = Some (real overshootCount')\<rparr>,
                  fitts = \<lparr>f_D = Some D, f_W = Some W, f_ID = ID,
                            f_throughput = throughput\<rparr>\<rparr>)"

section \<open>Sessions, buckets and the database\<close>

record session =
  sessionId :: string
  userId :: "string option"
  participantId :: string

record click =
  c_clicked :: bool
  c_hit :: bool
  c_missType :: string
  c_tms :: "real option"
  c_x :: "real option"
  c_y :: "real option"

text \<open>
  An attempt as the client sends it: the required properties of the schema are present, the
  blocks \<open>click\<close>, \<open>timing\<close> and \<open>spatial\<close> may be missing (the source reads them with
  optional chaining). The optional scalars \<open>despawnTms\<close>, \<open>ttlMs\<close>, \<open>column\<close> and
  \<open>speedNorm\<close>, which no function of the model reads, are left out.
\<close>

record raw_attempt =
  ra_round :: nat
  ra_attemptId :: string
  ra_bubbleId :: string
  ra_spawnTms :: real
  ra_target :: target
  ra_click :: "click option"
  ra_timing :: "timing option"
  ra_spatial :: "spatial option"

text \<open>
  An attempt as a bucket holds it (\<open>motorAttemptSchema\<close>), with the four derived blocks.
  \<open>a_notANumber\<close> says that a Number path of the document in memory holds NaN, which the
  numbers of the model cannot hold; \<^verbatim>\<open>save()\<close> rejects such a document, so no stored attempt
  has it set.
\<close>

record attempt =
  a_notANumber :: bool
  a_round :: nat
  a_attemptId :: string
  a_bubbleId :: string
  a_spawnTms :: real
  a_target :: target
  a_click :: click
  a_timing :: timing
  a_spatial :: spatial
  a_kinematics :: kinematics
  a_fitts :: fitts

record trace_bucket =
  tb_sessionId :: string
  tb_userId :: "string option"
  tb_bucketNumber :: nat
  tb_count :: nat
  tb_isFull :: bool
  tb_firstTms :: real
  tb_lastTms :: real
  tb_samples :: "sample list"

record attempt_bucket =
  ab_sessionId :: string
  ab_userId :: "string option"
  ab_bucketNumber :: nat
  ab_count :: nat
  ab_isFull :: bool
  ab_attempts :: "attempt list"

text \<open>
  The three collections. A document is identified by its position in its collection:
  \<open>create\<close> appends, \<open>save\<close> of a loaded document overwrites its position.
\<close>

record db =
  sessions :: "session list"
  traceBuckets :: "trace_bucket list"
  attemptBuckets :: "attempt_bucket list"

definition MAX_TRACE_SAMPLES_PER_BUCKET :: nat where
  "MAX_TRACE_SAMPLES_PER_BUCKET = 5000"

definition MAX_ATTEMPTS_PER_BUCKET :: nat where
  "MAX_ATTEMPTS_PER_BUCKET = 2000"

text \<open>\<^verbatim>\<open>Session.findOne({ sessionId })\<close>.\<close>

definition findSession :: "db \<Rightarrow> string \<Rightarrow> session option" where
  "findSession d sid = find (\<lambda>s. sessionId s = sid) (sessions d)"

text \<open>JavaScript truthiness of an optional string: present and not empty.\<close>

definition truthy :: "string option \<Rightarrow> bool" where
  "truthy v = (case v of None \<Rightarrow> False | Some str \<Rightarrow> str \<noteq> [])"

definition missingSession :: "string \<Rightarrow> js_error" where
  "missingSession sid =
     Error (''Session with sessionId '' @ [CHR 0x22] @ sid @ [CHR 0x22] @ '' does not exist.'')"

text \<open>
  \<^verbatim>\<open>findOne({ sessionId, isFull: false }).sort({ bucketNumber: -1 })\<close>: of the documents that
  match, one with the greatest bucket number (the first such in collection order).
\<close>

definition pickLatest :: "('b \<Rightarrow> nat) \<Rightarrow> (nat \<times> 'b) list \<Rightarrow> (nat \<times> 'b) option" where
  "pickLatest num cands =
     (case cands of [] \<Rightarrow> None
      | c # cs \<Rightarrow> Some (fold (\<lambda>x best. if num (snd x) > num (snd best) then x else best) cs c))"

section \<open>The pointer trace store\<close>

definition findActiveTrace :: "db \<Rightarrow> string \<Rightarrow> (nat \<times> trace_bucket) option" where
  "findActiveTrace d sid =
     pickLatest tb_bucketNumber
       (filter (\<lambda>(i, b). tb_sessionId b = sid \<and> \<not> tb_isFull b) (enumerate 0 (traceBuckets d)))"

text \<open>
  The schema validation that \<^verbatim>\<open>save()\<close> and \<^verbatim>\<open>create()\<close> run before the pre-save hook: the
  required string \<open>sessionId\<close> is not empty, and every sample has a round from 1 to 3 and a
  pointer type of the enumeration (the required numbers are present by their type). The
  model validates the whole document; the library validates the paths that changed, which is
  the same as long as the stored documents satisfy the schema.
\<close>

definition validSample :: "sample \<Rightarrow> bool" where
  "validSample s =
     (1 \<le> s_round s \<and> s_round s \<le> 3
      \<and> s_pointerType s \<in> set [''mouse'', ''touch'', ''pen'', ''unknown''])"

definition validTraceBucket :: "trace_bucket \<Rightarrow> bool" where
  "validTraceBucket b = (tb_sessionId b \<noteq> [] \<and> list_all validSample (tb_samples b))"

text \<open>
  \<^verbatim>\<open>this.create({...})\<close> validates the new document (it has no samples) and runs the pre-save
  hook, which rejects a new document whose session does not exist; the other properties take
  the defaults of the schema.
\<close>

definition createTrace :: "db \<Rightarrow> string \<Rightarrow> string option \<Rightarrow> nat \<Rightarrow> js_error + (db \<times> nat \<times> trace_bucket)" where
  "createTrace d sid uid num =
     (if sid = [] then Inl ValidationError
      else case findSession d sid of
        None \<Rightarrow> Inl (missingSession sid)
      | Some _ \<Rightarrow>
          let b = \<lparr>tb_sessionId = sid, tb_userId = uid, tb_bucketNumber = num, tb_count = 0,
                    tb_isFull = False, tb_firstTms = 0, tb_lastTms = 0, tb_samples = []\<rparr>
          in Inr (d\<lparr>traceBuckets := traceBuckets d @ [b]\<rparr>, length (traceBuckets d), b))"

text \<open>
  \<^verbatim>\<open>bucket.save()\<close> of a loaded document: it is validated and, when valid, written; the hook
  does not look the session up again.
\<close>

definition saveTrace :: "db \<Rightarrow> nat \<Rightarrow> trace_bucket \<Rightarrow> js_error + db" where
  "saveTrace d i b =
     (if validTraceBucket b then Inr (d\<lparr>traceBuckets := (traceBuckets d)[i := b]\<rparr>)
      else Inl ValidationError)"

definition pushSample :: "trace_bucket \<Rightarrow> sample \<Rightarrow> trace_bucket" where
  "pushSample b s =
     (let samples' = tb_samples b @ [s] in
      b\<lparr>tb_samples := samples', tb_count := length samples',
        tb_firstTms := (if tb_firstTms b = 0 then s_tms s else tb_firstTms b),
        tb_lastTms := s_tms s\<rparr>)"

text \<open>
  The loop of \<open>addSamples\<close> over the submitted samples. The state is the database, and the
  position and in-memory copy of the current bucket; the result carries the database also
  when a \<open>save\<close> or a \<open>create\<close> raises, since what was written before stays written.
\<close>

fun addSamplesLoop ::
  "nat \<Rightarrow> string \<Rightarrow> string option \<Rightarrow> sample list \<Rightarrow> db \<Rightarrow> nat \<Rightarrow> trace_bucket
     \<Rightarrow> db \<times> (js_error + nat \<times> trace_bucket)" where
  "addSamplesLoop cap sid uid [] d i b = (d, Inr (i, b))"
| "addSamplesLoop cap sid uid (s # rest) d i b =
     (if tb_count b \<ge> cap then
        let b1 = b\<lparr>tb_isFull := True\<rparr>
        in (case saveTrace d i b1 of
              Inl e \<Rightarrow> (d, Inl e)
            | Inr d1 \<Rightarrow>
               (case createTrace d1 sid uid (tb_bucketNumber b1 + 1) of
                  Inl e \<Rightarrow> (d1, Inl e)
                | Inr (d2, i2, b2) \<Rightarrow> addSamplesLoop cap sid uid rest d2 i2 (pushSample b2 s)))
      else addSamplesLoop cap sid uid rest d i (pushSample b s))"

definition addSamplesCap ::
  "nat \<Rightarrow> db \<Rightarrow> string \<Rightarrow> string option \<Rightarrow> sample list \<Rightarrow> db \<times> (js_error + trace_bucket)" where
  "addSamplesCap cap d sid uid samplesArray =
     (if length samplesArray = 0 then (d, Inl (Error ''samplesArray must be a non-empty array''))
      else case findSession d sid of
        None \<Rightarrow> (d, Inl (missingSession sid))
      | Some _ \<Rightarrow>
          (case (case findActiveTrace d sid of
                   None \<Rightarrow> createTrace d sid uid 1
                 | Some (i, b) \<Rightarrow>
                     Inr (d, i, if truthy uid \<and> \<not> truthy (tb_userId b)
                                then b\<lparr>tb_userId := uid\<rparr> else b)) of
             Inl e \<Rightarrow> (d, Inl e)
           | Inr (d1, i, b) \<Rightarrow>
               (case addSamplesLoop cap sid uid samplesArray d1 i b of
                  (d2, Inl e) \<Rightarrow> (d2, Inl e)
                | (d2, Inr (i2, b2)) \<Rightarrow>
                    (case saveTrace d2 i2 b2 of
                       Inl e \<Rightarrow> (d2, Inl e)
                     | Inr d3 \<Rightarrow> (d3, Inr b2)))))"

definition addSamples :: "db \<Rightarrow> string \<Rightarrow> string option \<Rightarrow> sample list \<Rightarrow> db \<times> (js_error + trace_bucket)" where
  "addSamples = addSamplesCap MAX_TRACE_SAMPLES_PER_BUCKET"

text \<open>
  \<^verbatim>\<open>find({ sessionId }).sort({ bucketNumber: 1 })\<close>, then the samples of the buckets in that
  order, filtered by round when a round is given.
\<close>

definition getSessionSamples :: "db \<Rightarrow> string \<Rightarrow> nat option \<Rightarrow> sample list" where
  "getSessionSamples d sid rnd =
     (let buckets = sort_key tb_bucketNumber (filter (\<lambda>b. tb_sessionId b = sid) (traceBuckets d))
      in concat (map (\<lambda>bucket. case rnd of
                        Some r \<Rightarrow> filter (\<lambda>s. s_round s = r) (tb_samples bucket)
                      | None \<Rightarrow> tb_samples bucket) buckets))"

section \<open>The attempt store and the enrichment pipeline\<close>

definition findActiveAttempt :: "db \<Rightarrow> string \<Rightarrow> (nat \<times> attempt_bucket) option" where
  "findActiveAttempt d sid =
     pickLatest ab_bucketNumber
       (filter (\<lambda>(i, b). ab_sessionId b = sid \<and> \<not> ab_isFull b) (enumerate 0 (attemptBuckets d)))"

definition createAttemptBucket ::
  "db \<Rightarrow> string \<Rightarrow> string option \<Rightarrow> nat \<Rightarrow> js_error + (db \<times> nat \<times> attempt_bucket)" where
  "createAttemptBucket d sid uid num =
     (if sid = [] then Inl ValidationError
      else case findSession d sid of
        None \<Rightarrow> Inl (missingSession sid)
      | Some _ \<Rightarrow>
          let b = \<lparr>ab_sessionId = sid, ab_userId = uid, ab_bucketNumber = num, ab_count = 0,
                    ab_isFull = False, ab_attempts = []\<rparr>
          in Inr (d\<lparr>attemptBuckets := attemptBuckets d @ [b]\<rparr>, length (attemptBuckets d), b))"

text \<open>
  The schema validation of an attempt bucket: the required strings are not empty, the round
  is from 1 to 3, the miss type is of the enumeration, and no Number path holds NaN. As for
  the trace buckets, the model validates the whole document.
\<close>

definition validAttempt :: "attempt \<Rightarrow> bool" where
  "validAttempt a =
     (\<not> a_notANumber a \<and> 1 \<le> a_round a \<and> a_round a \<le> 3
      \<and> a_attemptId a \<noteq> [] \<and> a_bubbleId a \<noteq> []
      \<and> c_missType (a_click a)
          \<in> set [''hit'', ''bubble_miss'', ''stage_miss'', ''timeout'', ''unknown''])"

definition validAttemptBucket :: "attempt_bucket \<Rightarrow> bool" where
  "validAttemptBucket b = (ab_sessionId b \<noteq> [] \<and> list_all validAttempt (ab_attempts b))"

definition saveAttemptBucket :: "db \<Rightarrow> nat \<Rightarrow> attempt_bucket \<Rightarrow> js_error + db" where
  "saveAttemptBucket d i b =
     (if validAttemptBucket b then Inr (d\<lparr>attemptBuckets := (attemptBuckets d)[i := b]\<rparr>)
      else Inl ValidationError)"

definition pushAttempt :: "attempt_bucket \<Rightarrow> attempt \<Rightarrow> attempt_bucket" where
  "pushAttempt b a =
     (let attempts' = ab_attempts b @ [a] in
      b\<lparr>ab_attempts := attempts', ab_count := length attempts'\<rparr>)"

text \<open>\<^verbatim>\<open>attempt.click?.tms\<close>, and the truthiness of an optional number (present, not zero).\<close>

definition clickTmsOf :: "raw_attempt \<Rightarrow> real option" where
  "clickTmsOf a = (case ra_click a of None \<Rightarrow> None | Some c \<Rightarrow> c_tms c)"

definition clickedOf :: "raw_attempt \<Rightarrow> bool" where
  "clickedOf a = (case ra_click a of None \<Rightarrow> False | Some c \<Rightarrow> c_clicked c)"

definition truthyNum :: "real option \<Rightarrow> bool" where
  "truthyNum v = (case v of None \<Rightarrow> False | Some n \<Rightarrow> n \<noteq> 0)"

definition buildBasicFeatures :: "raw_attempt \<Rightarrow> real option \<Rightarrow> features" where
  "buildBasicFeatures a prevClickTms =
     (let reactionTimeMs' =
            (case (case ra_timing a of None \<Rightarrow> None | Some tm \<Rightarrow> reactionTimeMs tm) of
               Some v \<Rightarrow> Some v
             | None \<Rightarrow>
                 (case clickTmsOf a of
                    Some ct \<Rightarrow> if clickedOf a \<and> ct \<noteq> 0 \<and> ra_spawnTms a \<noteq> 0
                               then Some (ct - ra_spawnTms a) else None
                  | None \<Rightarrow> None));
          interTapMs' =
            (case (prevClickTms, clickTmsOf a) of
               (Some p, Some ct) \<Rightarrow> if p \<noteq> 0 \<and> ct \<noteq> 0 then Some (ct - p) else None
             | _ \<Rightarrow> None);
          errorDistNorm' = (case ra_spatial a of None \<Rightarrow> None | Some sp \<Rightarrow> errorDistNorm sp)
      in \<lparr>timing = \<lparr>reactionTimeMs = reactionTimeMs', movementTimeMs = None,
                       interTapMs = interTapMs'\<rparr>,
          spatial = empty_spatial\<lparr>errorDistNorm := errorDistNorm'\<rparr>,
          kinematics = empty_kinematics,
          fitts = empty_fitts\<rparr>)"

text \<open>
  \<^verbatim>\<open>{ ...attempt, ...features }\<close> pushed into the bucket: the four blocks come from the
  features, a missing \<open>click\<close> takes the defaults of the schema.
\<close>

definition mergeFeatures :: "raw_attempt \<Rightarrow> features \<Rightarrow> attempt" where
  "mergeFeatures a f =
     \<lparr>a_notANumber = False, a_round = ra_round a, a_attemptId = ra_attemptId a, a_bubbleId = ra_bubbleId a,
      a_spawnTms = ra_spawnTms a, a_target = ra_target a,
      a_click = (case ra_click a of
                   Some c \<Rightarrow> c
                 | None \<Rightarrow> \<lparr>c_clicked = False, c_hit = False, c_missType = ''unknown'',
                              c_tms = None, c_x = None, c_y = None\<rparr>),
      a_timing = timing f, a_spatial = spatial f, a_kinematics = kinematics f,
      a_fitts = fitts f\<rparr>"

text \<open>
  The body of the \<open>map\<close> callback of \<open>addAttempts\<close>. An exception of the extractor is caught
  and replaced by the basic features. For an attempt that is marked clicked but has no click
  time the extractor is called with \<^verbatim>\<open>clickTms: undefined\<close>: no sample passes its filter, and
  it returns the minimal result with the reaction time \<open>undefined - spawnTms\<close>, which is NaN
  (and a NaN inter-tap time when a previous click time is given). The model marks that
  document with \<open>a_notANumber\<close> and leaves its timing empty.
\<close>

definition enrichAttempt :: "sample list \<Rightarrow> real option \<Rightarrow> raw_attempt \<Rightarrow> attempt" where
  "enrichAttempt allSamples prevClickTms a =
     (if length allSamples > 0 \<and> clickedOf a then
        (case clickTmsOf a of
           None \<Rightarrow>
             (mergeFeatures a
                \<lparr>timing = \<lparr>reactionTimeMs = None, movementTimeMs = None, interTapMs = None\<rparr>,
                 spatial = empty_spatial, kinematics = empty_kinematics, fitts = empty_fitts\<rparr>)
               \<lparr>a_notANumber := True\<rparr>
         | Some ct \<Rightarrow>
             (case extractAttemptFeatures allSamples (ra_spawnTms a) ct (ra_target a) prevClickTms of
                Inr f \<Rightarrow> mergeFeatures a f
              | Inl err \<Rightarrow> mergeFeatures a (buildBasicFeatures a prevClickTms)))
      else mergeFeatures a (buildBasicFeatures a prevClickTms))"

definition enrichAttempts :: "sample list \<Rightarrow> raw_attempt list \<Rightarrow> attempt list" where
  "enrichAttempts allSamples attemptsArray =
     map (\<lambda>idx. let prevClickTms = (if idx > 0 then clickTmsOf (attemptsArray ! (idx - 1)) else None)
                in enrichAttempt allSamples prevClickTms (attemptsArray ! idx))
       [0..<length attemptsArray]"

fun addAttemptsLoop ::
  "nat \<Rightarrow> string \<Rightarrow> string option \<Rightarrow> attempt list \<Rightarrow> db \<Rightarrow> nat \<Rightarrow> attempt_bucket
     \<Rightarrow> db \<times> (js_error + nat \<times> attempt_bucket)" where
  "addAttemptsLoop cap sid uid [] d i b = (d, Inr (i, b))"
| "addAttemptsLoop cap sid uid (a # rest) d i b =
     (if ab_count b \<ge> cap then
        let b1 = b\<lparr>ab_isFull := True\<rparr>
        in (case saveAttemptBucket d i b1 of
              Inl e \<Rightarrow> (d, Inl e)
            | Inr d1 \<Rightarrow>
               (case createAttemptBucket d1 sid uid (ab_bucketNumber b1 + 1) of
                  Inl e \<Rightarrow> (d1, Inl e)
                | Inr (d2, i2, b2) \<Rightarrow>
                    addAttemptsLoop cap sid uid rest d2 i2 (pushAttempt b2 a)))
      else addAttemptsLoop cap sid uid rest d i (pushAttempt b a))"

definition addAttemptsCap ::
  "nat \<Rightarrow> db \<Rightarrow> string \<Rightarrow> string option \<Rightarrow> raw_attempt list \<Rightarrow> db \<times> (js_error + attempt_bucket)" where
  "addAttemptsCap cap d sid uid attemptsArray =
     (if length attemptsArray = 0 then (d, Inl (Error ''attemptsArray must be a non-empty array''))
      else case findSession d sid of
        None \<Rightarrow> (d, Inl (missingSession sid))
      | Some _ \<Rightarrow>
          let allSamples = getSessionSamples d sid None;
              enrichedAttempts = enrichAttempts allSamples attemptsArray
          in (case (case findActiveAttempt d sid of
                      None \<Rightarrow> createAttemptBucket d sid uid 1
                    | Some (i, b) \<Rightarrow>
                        Inr (d, i, if truthy uid \<and> \<not> truthy (ab_userId b)
                                   then b\<lparr>ab_userId := uid\<rparr> else b)) of
                Inl e \<Rightarrow> (d, Inl e)
              | Inr (d1, i, b) \<Rightarrow>
                  (case addAttemptsLoop cap sid uid enrichedAttempts d1 i b of
                     (d2, Inl e) \<Rightarrow> (d2, Inl e)
                   | (d2, Inr (i2, b2)) \<Rightarrow>
                       (case saveAttemptBucket d2 i2 b2 of
                          Inl e \<Rightarrow> (d2, Inl e)
                        | Inr d3 \<Rightarrow> (d3, Inr b2)))))"

definition addAttempts ::
  "db \<Rightarrow> string \<Rightarrow> string option \<Rightarrow> raw_attempt list \<Rightarrow> db \<times> (js_error + attempt_bucket)" where
  "addAttempts = addAttemptsCap MAX_ATTEMPTS_PER_BUCKET"

definition getSessionAttempts :: "db \<Rightarrow> string \<Rightarrow> nat option \<Rightarrow> attempt list" where
  "getSessionAttempts d sid rnd =
     (let buckets = sort_key ab_bucketNumber (filter (\<lambda>b. ab_sessionId b = sid) (attemptBuckets d))
      in concat (map (\<lambda>bucket. case rnd of
                        Some r \<Rightarrow> filter (\<lambda>a. a_round a = r) (ab_attempts bucket)
                      | None \<Rightarrow> ab_attempts bucket) buckets))"

section \<open>The controller of the attempt endpoint\<close>

text \<open>
  \<open>logAttempts\<close> answers first and hands the batch to a task queued with \<^verbatim>\<open>setImmediate\<close>.
  The model returns the response together with the queued task; \<open>runAttemptsTask\<close> is the
  body of the task, run on the database later. The request body is an object (the JSON body
  parser provides one), so the statements before the task is queued raise nothing and the
  \<^verbatim>\<open>catch\<close> clause of the handler, with its 404 answer, is never entered.
\<close>

record attempts_body =
  b_sessionId :: "string option"
  b_userId :: "string option"
  b_attempts :: "raw_attempt list option"

record response =
  status :: nat
  success :: bool
  received :: "nat option"
  processing :: "bool option"
  error :: "string option"

datatype log_entry = LogInfo string string nat nat | LogError string string string

record attempts_task =
  k_sessionId :: string
  k_userId :: "string option"
  k_attempts :: "raw_attempt list"

definition logAttempts :: "attempts_body \<Rightarrow> response \<times> attempts_task option" where
  "logAttempts body =
     (case (b_sessionId body, b_attempts body) of
        (Some sid, Some attempts) \<Rightarrow>
          if sid = [] \<or> length attempts = 0
          then (\<lparr>status = 400, success = False, received = None, processing = None,
                  error = Some ''Session ID and attempts array are required''\<rparr>, None)
          else (\<lparr>status = 200, success = True, received = Some (length attempts),
                  processing = Some True, error = None\<rparr>,
                Some \<lparr>k_sessionId = sid, k_userId = b_userId body, k_attempts = attempts\<rparr>)
      | _ \<Rightarrow> (\<lparr>status = 400, success = False, received = None, processing = None,
                 error = Some ''Session ID and attempts array are required''\<rparr>, None))"

definition errorMessage :: "js_error \<Rightarrow> string" where
  "errorMessage e = (case e of Error msg \<Rightarrow> msg | TypeError \<Rightarrow> ''TypeError''
     | ValidationError \<Rightarrow> ''validation failed'')"

definition runAttemptsTask :: "db \<Rightarrow> attempts_task \<Rightarrow> db \<times> log_entry" where
  "runAttemptsTask d k =
     (case addAttempts d (k_sessionId k) (k_userId k) (k_attempts k) of
        (d', Inr bucket) \<Rightarrow>
          (d', LogInfo ''Motor attempts logged'' (k_sessionId k) (length (k_attempts k))
                 (ab_bucketNumber bucket))
      | (d', Inl e) \<Rightarrow>
          (d', LogError ''Error processing motor attempts:'' (k_sessionId k) (errorMessage e)))"

section \<open>The round and session aggregator\<close>

text \<open>\<^verbatim>\<open>.filter(v => v != null)\<close> on an array of nullable numbers.\<close>

definition nonNull :: "real option list \<Rightarrow> real list" where
  "nonNull vs = List.map_filter (\<lambda>v. v) vs"

definition mean :: "real list \<Rightarrow> real option" where
  "mean arr = (if length arr > 0 then Some (fold (\<lambda>b a. a + b) arr 0 / real (length arr)) else None)"

definition std :: "real list \<Rightarrow> real option" where
  "std arr =
     (if length arr < 2 then None
      else case mean arr of
        None \<Rightarrow> None
      | Some m \<Rightarrow>
          let variance = fold (\<lambda>v sum. sum + (v - m) ^ 2) arr 0 / real (length arr)
          in Some (sqrt variance))"

definition median :: "real list \<Rightarrow> real option" where
  "median arr =
     (if length arr = 0 then None
      else let sorted' = sort arr;
               mid = length sorted' div 2
           in if length sorted' mod 2 = 0
              then Some ((sorted' ! (mid - 1) + sorted' ! mid) / 2)
              else Some (sorted' ! mid))"

text \<open>
  The object that \<open>computeRoundFeatures\<close> returns is a list of its properties in the order of
  the object literal, which is the order \<^verbatim>\<open>Object.entries\<close> yields; \<open>getProp\<close> reads a property
  (\<open>None\<close> when it is \<^verbatim>\<open>null\<close> or absent).
\<close>

type_synonym round_features = "(string \<times> real option) list"

definition getProp :: "round_features \<Rightarrow> string \<Rightarrow> real option" where
  "getProp rf key = (case map_of rf key of Some v \<Rightarrow> v | None \<Rightarrow> None)"

definition computeRoundFeatures :: "db \<Rightarrow> string \<Rightarrow> nat \<Rightarrow> round_features option" where
  "computeRoundFeatures d sid rnd =
     (let attempts = getSessionAttempts d sid (Some rnd) in
      if length attempts = 0 then None
      else
        let hits = filter (\<lambda>a. c_hit (a_click a)) attempts;
            misses = filter (\<lambda>a. \<not> c_hit (a_click a)) attempts;
            reactionTimes = nonNull (map (\<lambda>a. reactionTimeMs (a_timing a)) attempts);
            movementTimes = nonNull (map (\<lambda>a. movementTimeMs (a_timing a)) hits);
            interTapTimes = nonNull (map (\<lambda>a. interTapMs (a_timing a)) attempts);
            errorDists = nonNull (map (\<lambda>a. errorDistNorm (a_spatial a)) hits);
            pathLengths = nonNull (map (\<lambda>a. pathLengthNorm (a_spatial a)) hits);
            straightness' = nonNull (map (\<lambda>a. straightness (a_spatial a)) hits);
            meanSpeeds = nonNull (map (\<lambda>a. meanSpeed (a_kinematics a)) hits);
            peakSpeeds = nonNull (map (\<lambda>a. peakSpeed (a_kinematics a)) hits);
            jerkRMS' = nonNull (map (\<lambda>a. jerkRMS (a_kinematics a)) hits);
            submovements' = nonNull (map (\<lambda>a. submovementCount (a_kinematics a)) hits);
            overshoots' = nonNull (map (\<lambda>a. overshootCount (a_kinematics a)) hits);
            throughputs = nonNull (map (\<lambda>a. f_throughput (a_fitts a)) hits);
            IDs = nonNull (map (\<lambda>a. f_ID (a_fitts a)) hits)
        in Some
          [(''reactionTime_mean'', mean reactionTimes),
           (''reactionTime_std'', std reactionTimes),
           (''reactionTime_median'', median reactionTimes),
           (''movementTime_mean'', mean movementTimes),
           (''movementTime_std'', std movementTimes),
           (''movementTime_median'', median movementTimes),
           (''interTapTime_mean'', mean interTapTimes),
           (''interTapTime_std'', std interTapTimes),
           (''errorDist_mean'', mean errorDists),
           (''errorDist_std'', std errorDists),
           (''pathLength_mean'', mean pathLengths),
           (''straightness_mean'', mean straightness'),
           (''straightness_std'', std straightness'),
           (''meanSpeed_mean'', mean meanSpeeds),
           (''peakSpeed_mean'', mean peakSpeeds),
           (''jerkRMS_mean'', mean jerkRMS'),
           (''jerkRMS_std'', std jerkRMS'),
           (''submovementCount_mean'', mean submovements'),
           (''submovementCount_std'', std submovements'),
           (''overshootCount_mean'', mean overshoots'),
           (''overshootCount_std'', std overshoots'),
           (''throughput_mean'', mean throughputs),
           (''throughput_std'', std throughputs),
           (''ID_mean'', mean IDs),
           (''nAttempts'', Some (real (length attempts))),
           (''nHits'', Some (real (length hits))),
           (''nMisses'', Some (real (length misses))),
           (''hitRate'', Some (if length attempts > 0
                               then real (length hits) / real (length attempts) else 0))])"

text \<open>The \<open>counts\<close> object that \<open>computeRoundSummary\<close> stores with the features of a round.\<close>

record counts =
  nTargets :: "real option"
  nHits :: "real option"
  nMisses :: "real option"
  hitRate :: "real option"

definition summaryCounts :: "round_features \<Rightarrow> counts" where
  "summaryCounts features' =
     \<lparr>nTargets = getProp features' ''nAttempts'', nHits = getProp features' ''nHits'',
      nMisses = getProp features' ''nMisses'', hitRate = getProp features' ''hitRate''\<rparr>"

text \<open>
  \<open>computeSessionFeatures\<close>. The result object is a map from property names to nullable
  numbers; \<^verbatim>\<open>features1?.hitRate\<close> is \<open>optProp\<close>.
\<close>

definition optProp :: "round_features option \<Rightarrow> string \<Rightarrow> real option" where
  "optProp rf key = (case rf of None \<Rightarrow> None | Some f \<Rightarrow> getProp f key)"

definition roundDigit :: "nat \<Rightarrow> string" where
  "roundDigit r = (if r = 1 then ''1'' else if r = 2 then ''2'' else ''3'')"

definition roundKey :: "nat \<Rightarrow> string \<Rightarrow> string" where
  "roundKey r key = ''r'' @ roundDigit r @ ''_'' @ key"

text \<open>
  The body of the loop over the rounds: when the round has features, every property is copied
  under the key \<^verbatim>\<open>r${r}_${key}\<close>.
\<close>

definition copyRound ::
  "nat \<Rightarrow> round_features option \<Rightarrow> (string \<rightharpoonup> real option) \<Rightarrow> (string \<rightharpoonup> real option)" where
  "copyRound r rf allFeatures =
     (case rf of
        Some f \<Rightarrow> fold (\<lambda>(key, value) m. m(roundKey r key \<mapsto> value)) f allFeatures
      | None \<Rightarrow> allFeatures)"

definition computeSessionFeatures :: "db \<Rightarrow> string \<Rightarrow> (string \<rightharpoonup> real option)" where
  "computeSessionFeatures d sid =
     (let features1 = computeRoundFeatures d sid 1;
          features2 = computeRoundFeatures d sid 2;
          features3 = computeRoundFeatures d sid 3;
          perRound = fold (\<lambda>r allFeatures.
                        copyRound r ([features1, features2, features3] ! (r - 1)) allFeatures)
                       [1, 2, 3] Map.empty;
          hitRates = nonNull [optProp features1 ''hitRate'', optProp features2 ''hitRate'',
                              optProp features3 ''hitRate''];
          withHitRate = (if length hitRates > 1
                         then perRound(''hitRate_trend'' \<mapsto>
                                Some (hitRates ! (length hitRates - 1) - hitRates ! 0))
                         else perRound);
          throughputs = nonNull [optProp features1 ''throughput_mean'',
                                 optProp features2 ''throughput_mean'',
                                 optProp features3 ''throughput_mean''];
          withThroughput = (if length throughputs > 1
                            then withHitRate(''throughput_trend'' \<mapsto>
                                   Some (throughputs ! (length throughputs - 1) - throughputs ! 0))
                            else withHitRate)
      in withThroughput)"

section \<open>Example inputs\<close>

definition sampleAt :: "real \<Rightarrow> real \<Rightarrow> real \<Rightarrow> sample" where
  "sampleAt t a b = \<lparr>s_round = 1, s_tms = t, s_x = a, s_y = b, s_isDown = False,
     s_pointerType = ''mouse''\<rparr>"

text \<open>Five samples on a straight line from \<open>(0, 0)\<close> to \<open>(0.1, 0)\<close> over 100 ms.\<close>

definition straightLine :: "sample list" where
  "straightLine = [sampleAt 0 0 0, sampleAt 25 0.025 0, sampleAt 50 0.05 0, sampleAt 75 0.075 0,
     sampleAt 100 0.1 0]"

definition lineTarget :: target where
  "lineTarget = \<lparr>t_x = 0.1, t_y = 0, t_radius = 0.05\<rparr>"

text \<open>Three samples only: too few for the full extraction.\<close>

definition shortTrace :: "sample list" where
  "shortTrace = [sampleAt 1000 0 0, sampleAt 1050 0.05 0, sampleAt 1100 0.1 0]"

text \<open>A pointer that does not move, and a target of radius zero.\<close>

definition restingPointer :: "sample list" where
  "restingPointer = [sampleAt 0 0.5 0.5, sampleAt 30 0.5 0.5, sampleAt 60 0.5 0.5,
     sampleAt 90 0.5 0.5]"

definition pointTarget :: target where
  "pointTarget = \<lparr>t_x = 0.5, t_y = 0.5, t_radius = 0\<rparr>"

text \<open>A lateral wobble at the third sample, and an approach that passes the target once.\<close>

definition wobble :: "sample list" where
  "wobble = [sampleAt 0 0.5 0.5, sampleAt 20 0.51 0.5, sampleAt 40 0.5 0.5, sampleAt 60 0.5 0.5,
     sampleAt 80 0.5 0.5]"

definition wobbleTarget :: target where
  "wobbleTarget = \<lparr>t_x = 0.3, t_y = 0.5, t_radius = 0.1\<rparr>"

definition overshootOnce :: "sample list" where
  "overshootOnce = [sampleAt 0 0.5 0.5, sampleAt 20 0.4 0.5, sampleAt 40 0.3 0.5,
     sampleAt 60 0.28 0.5, sampleAt 80 0.3 0.5]"

definition nearTarget :: target where
  "nearTarget = \<lparr>t_x = 0.3, t_y = 0.5, t_radius = 0.05\<rparr>"

text \<open>
  Ninety samples, 10 ms apart, far from the target: the pointer steps from 0.9 to 0.89, rests,
  and at the samples 63 and 64 steps to 0.88 and back. The only reversal of the distance is at
  index 64.
\<close>

definition lateReversalX :: "nat \<Rightarrow> real" where
  "lateReversalX i = (if i = 0 then 0.9 else if i = 63 then 0.88 else 0.89)"

definition lateReversal :: "sample list" where
  "lateReversal = map (\<lambda>i. sampleAt (10 * real i) (lateReversalX i) 0.5) [0..<90]"

definition farTarget :: target where
  "farTarget = \<lparr>t_x = 0.1, t_y = 0.5, t_radius = 0.01\<rparr>"

section \<open>The overshoot detectors in the words of the specification\<close>

text \<open>
  The detectors as counts of indices of the moving segment. A reversal at \<open>i\<close> is a distance
  delta below \<open>-0.001\<close> before \<open>i\<close> and above \<open>0.001\<close> at \<open>i\<close>. \<open>positionalOscillations\<close>
  counts every sample inside the gate at which the x or y step reverses (every \<open>i \<ge> 2\<close>, the
  first index with two steps before it); \<open>lateOscillations\<close> counts them from the fourth
  sample on and only in a segment of more than four samples. \<open>finalApproachReversals\<close> counts
  the reversals whose three samples lie at or after the index \<open>finalPhaseStart\<close>.
\<close>

definition reversalAt :: "real list \<Rightarrow> nat \<Rightarrow> bool" where
  "reversalAt d i = (d ! (i - 1) - d ! (i - 2) < - 0.001 \<and> d ! i - d ! (i - 1) > 0.001)"

definition globalReversals :: "sample list \<Rightarrow> target \<Rightarrow> nat" where
  "globalReversals ms tg =
     (let d = distances ms tg
      in length (filter (\<lambda>i. reversalAt d i \<and> d ! i < 4 * t_radius tg) [2..<length ms]))"

definition finalApproachReversals :: "sample list \<Rightarrow> target \<Rightarrow> nat" where
  "finalApproachReversals ms tg =
     (if length ms > 5
      then let d = distances ms tg
           in length (filter (\<lambda>i. reversalAt d i) [finalPhaseStart (length ms) + 2..<length ms])
      else 0)"

definition positionalOscillations :: "sample list \<Rightarrow> target \<Rightarrow> nat" where
  "positionalOscillations ms tg =
     (let d = distances ms tg
      in length (filter (\<lambda>i. d ! i < 4 * t_radius tg \<and> (xReversal ms i \<or> yReversal ms i))
                   [2..<length ms]))"

definition lateOscillations :: "sample list \<Rightarrow> target \<Rightarrow> nat" where
  "lateOscillations ms tg =
     (if length ms > 4
      then let d = distances ms tg
           in length (filter (\<lambda>i. d ! i < 4 * t_radius tg \<and> (xReversal ms i \<or> yReversal ms i))
                        [3..<length ms])
      else 0)"

text \<open>The overshoot count of the extractor's result (null when it raises).\<close>

definition overshootCountOf ::
  "sample list \<Rightarrow> real \<Rightarrow> real \<Rightarrow> target \<Rightarrow> real option \<Rightarrow> real option" where
  "overshootCountOf samples spawnTms clickTms tg prevClickTms =
     (case extractAttemptFeatures samples spawnTms clickTms tg prevClickTms of
        Inr r \<Rightarrow> overshootCount (kinematics r)
      | Inl e \<Rightarrow> None)"

section \<open>Example rounds\<close>

definition mkAttempt :: "nat \<Rightarrow> bool \<Rightarrow> real option \<Rightarrow> real option \<Rightarrow> real option \<Rightarrow> attempt" where
  "mkAttempt rnd hit rt mt tp =
     \<lparr>a_notANumber = False, a_round = rnd, a_attemptId = ''a'', a_bubbleId = ''b'', a_spawnTms = 0,
      a_target = lineTarget,
      a_click = \<lparr>c_clicked = True, c_hit = hit,
                  c_missType = (if hit then ''hit'' else ''bubble_miss''),
                  c_tms = None, c_x = None, c_y = None\<rparr>,
      a_timing = \<lparr>reactionTimeMs = rt, movementTimeMs = mt, interTapMs = None\<rparr>,
      a_spatial = empty_spatial, a_kinematics = empty_kinematics,
      a_fitts = empty_fitts\<lparr>f_throughput := tp\<rparr>\<rparr>"

text \<open>A database with the session \<open>s1\<close> and one bucket holding the given attempts.\<close>

definition dbOf :: "attempt list \<Rightarrow> db" where
  "dbOf as =
     \<lparr>sessions = [\<lparr>sessionId = ''s1'', userId = None, participantId = ''p1''\<rparr>],
      traceBuckets = [],
      attemptBuckets = [\<lparr>ab_sessionId = ''s1'', ab_userId = None, ab_bucketNumber = 1,
                          ab_count = length as, ab_isFull = False, ab_attempts = as\<rparr>]\<rparr>"

text \<open>One round of ten attempts, six of them hits.\<close>

definition sixOfTen :: db where
  "sixOfTen = dbOf (replicate 6 (mkAttempt 1 True (Some 400) (Some 100) (Some 2))
                    @ replicate 4 (mkAttempt 1 False (Some 500) (Some 300) None))"

text \<open>One hit and one miss, both with a movement time.\<close>

definition hitAndMiss :: db where
  "hitAndMiss = dbOf [mkAttempt 1 True (Some 400) (Some 100) (Some 2),
                      mkAttempt 1 False (Some 500) (Some 300) None]"

text \<open>Attempts in rounds 1 and 3 only.\<close>

definition roundsOneAndThree :: db where
  "roundsOneAndThree = dbOf [mkAttempt 1 True (Some 400) (Some 100) (Some 2),
                             mkAttempt 1 False (Some 500) (Some 300) None,
                             mkAttempt 3 True (Some 300) (Some 90) (Some 5)]"

section \<open>The aggregation subsets in the words of the specification\<close>

text \<open>The non-null values of a feature over a set of attempts, and the hits of a round.\<close>

definition valuesOver :: "(attempt \<Rightarrow> real option) \<Rightarrow> attempt list \<Rightarrow> real list" where
  "valuesOver feature as = nonNull (map feature as)"

definition hitsOf :: "attempt list \<Rightarrow> attempt list" where
  "hitsOf as = filter (\<lambda>a. c_hit (a_click a)) as"

section \<open>Example databases\<close>

text \<open>The session \<open>s1\<close> with no buckets yet, and a database without any session.\<close>

definition sessionOnly :: db where
  "sessionOnly =
     \<lparr>sessions = [\<lparr>sessionId = ''s1'', userId = None, participantId = ''p1''\<rparr>],
      traceBuckets = [], attemptBuckets = []\<rparr>"

text \<open>The session \<open>s1\<close> with one stored pointer sample and no attempt bucket.\<close>

definition sessionWithTrace :: db where
  "sessionWithTrace =
     \<lparr>sessions = [\<lparr>sessionId = ''s1'', userId = None, participantId = ''p1''\<rparr>],
      traceBuckets = [\<lparr>tb_sessionId = ''s1'', tb_userId = None, tb_bucketNumber = 1,
                        tb_count = 1, tb_isFull = False, tb_firstTms = 1000, tb_lastTms = 1000,
                        tb_samples = [sampleAt 1000 0 0]\<rparr>],
      attemptBuckets = []\<rparr>"

definition noSessions :: db where
  "noSessions = \<lparr>sessions = [], traceBuckets = [], attemptBuckets = []\<rparr>"

text \<open>A clicked attempt as a client sends it, and a batch for a session nobody created.\<close>

definition clickAttempt :: raw_attempt where
  "clickAttempt =
     \<lparr>ra_round = 1, ra_attemptId = ''a1'', ra_bubbleId = ''b1'', ra_spawnTms = 1000,
      ra_target = lineTarget,
      ra_click = Some \<lparr>c_clicked = True, c_hit = True, c_missType = ''hit'',
                        c_tms = Some 1100, c_x = Some 0.1, c_y = Some 0\<rparr>,
      ra_timing = None, ra_spatial = None\<rparr>"

definition ghostBatch :: attempts_body where
  "ghostBatch = \<lparr>b_sessionId = Some ''ghost'', b_userId = None, b_attempts = Some [clickAttempt]\<rparr>"

section \<open>Properties of the extractor\<close>

lemma find_upt_bound: "find P [a..<b] = Some i \<Longrightarrow> a \<le> i \<and> i < b"
  by (auto simp: find_Some_iff)

lemma startIdx_less:
  assumes "seg \<noteq> []"
  shows "startIdx seg < length seg"
proof (cases seg)
  case Nil
  then show ?thesis using assms by simp
next
  case (Cons s0 rest)
  show ?thesis
  proof (cases "find (\<lambda>i. dist_pt (pos (seg ! i)) (pos s0) > EPS) [1..<length seg]")
    case None
    then show ?thesis using Cons by (simp add: startIdx_def)
  next
    case (Some i)
    then have "i < length seg" using find_upt_bound by blast
    then show ?thesis using Cons Some by (simp add: startIdx_def)
  qed
qed

lemma moveSegOf_nonempty: "seg \<noteq> [] \<Longrightarrow> moveSegOf seg \<noteq> []"
  using startIdx_less [of seg] by (simp add: moveSegOf_def)

text \<open>The result of the full path, field by field, in terms of the moving segment.\<close>

lemma extract_full:
  assumes "\<not> length (segment samples sp ck) < 4"
  defines "ms \<equiv> moveSegOf (segment samples sp ck)"
  shows "\<exists>r. extractAttemptFeatures samples sp ck tg prev = Inr r
    \<and> timing r = \<lparr>reactionTimeMs = Some (ck - sp),
          movementTimeMs = Some (s_tms (ms ! (length ms - 1)) - s_tms (ms ! 0)),
          interTapMs = (case prev of Some p \<Rightarrow> Some (ck - p) | None \<Rightarrow> None)\<rparr>
    \<and> spatial r = \<lparr>errorDistNorm = (if t_radius tg > 0
             then Some (dist_pt (pos (ms ! (length ms - 1))) (centre tg) / t_radius tg) else None),
          pathLengthNorm = Some (pathLength ms),
          directDistNorm = Some (dist_pt (pos (ms ! 0)) (centre tg)),
          straightness = (if pathLength ms > 0
             then Some (dist_pt (pos (ms ! 0)) (centre tg) / pathLength ms) else None)\<rparr>
    \<and> overshootCount (kinematics r) = Some (real (overshoots ms tg))
    \<and> fitts r = \<lparr>f_D = Some (dist_pt (pos (ms ! 0)) (centre tg)),
          f_W = Some (2 * t_radius tg),
          f_ID = (if 2 * t_radius tg > 0
             then Some (log 2 (dist_pt (pos (ms ! 0)) (centre tg) / (2 * t_radius tg) + 1)) else None),
          f_throughput = (if 2 * t_radius tg > 0
             then Some (log 2 (dist_pt (pos (ms ! 0)) (centre tg) / (2 * t_radius tg) + 1)
                        / max ((s_tms (ms ! (length ms - 1)) - s_tms (ms ! 0)) / 1000) 0.05)
             else None)\<rparr>"
proof -
  have "segment samples sp ck \<noteq> []" using assms by auto
  then have "ms \<noteq> []" unfolding ms_def by (rule moveSegOf_nonempty)
  then show ?thesis using assms(1) unfolding ms_def
    by (simp add: extractAttemptFeatures_def Let_def split: prod.splits)
qed

text \<open>The extractor returns a result on every input: neither path raises.\<close>

lemma extractAttemptFeatures_returns:
  "\<exists>r. extractAttemptFeatures samples sp ck tg prev = Inr r"
proof (cases "length (segment samples sp ck) < 4")
  case True
  then show ?thesis by (simp add: extractAttemptFeatures_def)
next
  case False
  then show ?thesis using extract_full [of samples sp ck tg prev] by blast
qed

lemma dist_pt_same_y: "dist_pt (a, c) (b, c) = \<bar>a - b\<bar>"
  by (simp add: dist_pt_def hypot_def)

lemma dist_pt_self: "dist_pt p p = 0"
  by (simp add: dist_pt_def hypot_def)

lemma pos_sampleAt: "pos (sampleAt t a b) = (a, b)"
  by (simp add: pos_def sampleAt_def)

lemma tms_sampleAt: "s_tms (sampleAt t a b) = t"
  by (simp add: sampleAt_def)

lemma segment_straightLine: "segment straightLine 0 100 = straightLine"
  by (simp add: segment_def straightLine_def tms_sampleAt)

lemma startIdx_straightLine: "startIdx straightLine = 0"
  by (simp add: startIdx_def straightLine_def upt_rec pos_sampleAt dist_pt_same_y EPS_def)

lemma line_ms: "moveSegOf (segment straightLine 0 100) = straightLine"
  by (simp add: segment_straightLine moveSegOf_def startIdx_straightLine)

lemma line_ends: "length straightLine = 5" "straightLine ! 0 = sampleAt 0 0 0"
  "straightLine ! 4 = sampleAt 100 0.1 0"
  by (simp_all add: straightLine_def)

lemma line_full: "\<not> length (segment straightLine 0 100) < 4"
  by (simp add: segment_straightLine line_ends)

text \<open>
  C3. When fewer than four samples fall in \<open>[spawnTms, clickTms]\<close>, the extractor returns a
  result whose reaction time is \<open>clickTms - spawnTms\<close>, whose inter-tap interval is
  \<open>clickTms - prevClickTms\<close> when a previous click time is given and null otherwise, and
  whose spatial, kinematic and Fitts fields are all null.
\<close>

theorem C3_minimal_result:
  assumes "length (segment samples spawnTms clickTms) < 4"
  shows "\<exists>r. extractAttemptFeatures samples spawnTms clickTms tg prevClickTms = Inr r
     \<and> reactionTimeMs (timing r) = Some (clickTms - spawnTms)
     \<and> interTapMs (timing r) = (case prevClickTms of Some p \<Rightarrow> Some (clickTms - p) | None \<Rightarrow> None)
     \<and> errorDistNorm (spatial r) = None \<and> pathLengthNorm (spatial r) = None
     \<and> directDistNorm (spatial r) = None \<and> straightness (spatial r) = None
     \<and> meanSpeed (kinematics r) = None \<and> peakSpeed (kinematics r) = None
     \<and> speedVar (kinematics r) = None \<and> meanAccel (kinematics r) = None
     \<and> peakAccel (kinematics r) = None \<and> jerkRMS (kinematics r) = None
     \<and> submovementCount (kinematics r) = None \<and> overshootCount (kinematics r) = None
     \<and> f_D (fitts r) = None \<and> f_W (fitts r) = None \<and> f_ID (fitts r) = None
     \<and> f_throughput (fitts r) = None"
  using assms
  by (simp add: extractAttemptFeatures_def empty_spatial_def empty_kinematics_def empty_fitts_def)

theorem C3_minimal_result_witness:
  "length (segment shortTrace 1000 1100) < 4
   \<and> (\<exists>r. extractAttemptFeatures shortTrace 1000 1100 lineTarget (Some 900) = Inr r
        \<and> reactionTimeMs (timing r) = Some 100 \<and> interTapMs (timing r) = Some 200
        \<and> errorDistNorm (spatial r) = None \<and> pathLengthNorm (spatial r) = None
        \<and> directDistNorm (spatial r) = None \<and> straightness (spatial r) = None
        \<and> meanSpeed (kinematics r) = None \<and> peakSpeed (kinematics r) = None
        \<and> speedVar (kinematics r) = None \<and> meanAccel (kinematics r) = None
        \<and> peakAccel (kinematics r) = None \<and> jerkRMS (kinematics r) = None
        \<and> submovementCount (kinematics r) = None \<and> overshootCount (kinematics r) = None
        \<and> f_D (fitts r) = None \<and> f_W (fitts r) = None \<and> f_ID (fitts r) = None
        \<and> f_throughput (fitts r) = None)"
proof -
  have short: "length (segment shortTrace 1000 1100) < 4"
    by (simp add: segment_def shortTrace_def)
  show ?thesis
    using short C3_minimal_result [OF short, of lineTarget "Some 900"] by simp
qed

text \<open>
  C5. On the full extraction path the Fitts block has \<open>D = directDistNorm\<close>,
  \<open>W = 2 \<times> radius\<close>, \<open>ID = log2 (D / W + 1)\<close> when \<open>W > 0\<close> and null otherwise, and
  throughput \<open>ID\<close> divided by the movement time in seconds, clamped from below to 0.05 s
  (null when \<open>ID\<close> is null).
\<close>

theorem C5_fitts_block:
  assumes "\<not> length (segment samples spawnTms clickTms) < 4"
  shows "\<exists>r dd mt. extractAttemptFeatures samples spawnTms clickTms tg prevClickTms = Inr r
     \<and> directDistNorm (spatial r) = Some dd \<and> movementTimeMs (timing r) = Some mt
     \<and> f_D (fitts r) = Some dd
     \<and> f_W (fitts r) = Some (2 * t_radius tg)
     \<and> f_ID (fitts r) =
         (if 2 * t_radius tg > 0 then Some (log 2 (dd / (2 * t_radius tg) + 1)) else None)
     \<and> f_throughput (fitts r) =
         (case f_ID (fitts r) of None \<Rightarrow> None | Some i \<Rightarrow> Some (i / max (mt / 1000) 0.05))"
proof -
  from extract_full [OF assms, of tg prevClickTms]
  obtain r where "extractAttemptFeatures samples spawnTms clickTms tg prevClickTms = Inr r"
    and "movementTimeMs (timing r) = Some (s_tms (moveSegOf (segment samples spawnTms clickTms)
            ! (length (moveSegOf (segment samples spawnTms clickTms)) - 1))
          - s_tms (moveSegOf (segment samples spawnTms clickTms) ! 0))"
    and "directDistNorm (spatial r)
         = Some (dist_pt (pos (moveSegOf (segment samples spawnTms clickTms) ! 0)) (centre tg))"
    and "fitts r = \<lparr>f_D = Some (dist_pt (pos (moveSegOf (segment samples spawnTms clickTms) ! 0)) (centre tg)),
          f_W = Some (2 * t_radius tg),
          f_ID = (if 2 * t_radius tg > 0
             then Some (log 2 (dist_pt (pos (moveSegOf (segment samples spawnTms clickTms) ! 0)) (centre tg) / (2 * t_radius tg) + 1)) else None),
          f_throughput = (if 2 * t_radius tg > 0
             then Some (log 2 (dist_pt (pos (moveSegOf (segment samples spawnTms clickTms) ! 0)) (centre tg) / (2 * t_radius tg) + 1)
                        / max ((s_tms (moveSegOf (segment samples spawnTms clickTms) ! (length (moveSegOf (segment samples spawnTms clickTms)) - 1)) - s_tms (moveSegOf (segment samples spawnTms clickTms) ! 0)) / 1000) 0.05)
             else None)\<rparr>"
    by auto
  then show ?thesis by simp
qed

theorem C5_fitts_block_witness:
  "\<not> length (segment straightLine 0 100) < 4
   \<and> (\<exists>r. extractAttemptFeatures straightLine 0 100 lineTarget None = Inr r
        \<and> f_D (fitts r) = Some 0.1 \<and> f_W (fitts r) = Some 0.1 \<and> f_ID (fitts r) = Some 1
        \<and> f_throughput (fitts r) = Some 10)"
proof -
  from C5_fitts_block [OF line_full, of lineTarget None]
  obtain r dd mt where r: "extractAttemptFeatures straightLine 0 100 lineTarget None = Inr r"
    and dd: "directDistNorm (spatial r) = Some dd" and mt: "movementTimeMs (timing r) = Some mt"
    and f: "f_D (fitts r) = Some dd" "f_W (fitts r) = Some (2 * t_radius lineTarget)"
      "f_ID (fitts r) = (if 2 * t_radius lineTarget > 0
         then Some (log 2 (dd / (2 * t_radius lineTarget) + 1)) else None)"
      "f_throughput (fitts r) =
         (case f_ID (fitts r) of None \<Rightarrow> None | Some i \<Rightarrow> Some (i / max (mt / 1000) 0.05))"
    by blast
  from extract_full [OF line_full, of lineTarget None] r
  have "dd = 0.1" "mt = 100"
    using dd mt
    by (auto simp: line_ms line_ends pos_sampleAt tms_sampleAt lineTarget_def centre_def
        dist_pt_same_y)
  with f have "f_D (fitts r) = Some 0.1 \<and> f_W (fitts r) = Some 0.1 \<and> f_ID (fitts r) = Some 1
        \<and> f_throughput (fitts r) = Some 10"
    by (simp add: lineTarget_def)
  with r line_full show ?thesis by blast
qed

lemma segment_resting: "segment restingPointer 0 100 = restingPointer"
  by (simp add: segment_def restingPointer_def tms_sampleAt)

lemma startIdx_resting: "startIdx restingPointer = 0"
  by (simp add: startIdx_def restingPointer_def upt_rec pos_sampleAt dist_pt_self EPS_def)

lemma resting_ms: "moveSegOf (segment restingPointer 0 100) = restingPointer"
  by (simp add: segment_resting moveSegOf_def startIdx_resting)

lemma resting_full: "\<not> length (segment restingPointer 0 100) < 4"
  by (simp add: segment_resting) (simp add: restingPointer_def)

lemma pathLength_resting: "pathLength restingPointer = 0"
  by (simp add: pathLength_def restingPointer_def upt_rec pos_sampleAt dist_pt_self)

text \<open>
  C9. On the full extraction path the extractor returns a result (it raises nothing); when
  the path length of the moving segment is zero the straightness is null, and when the
  target radius is zero \<open>errorDistNorm\<close>, \<open>fitts.ID\<close> and \<open>fitts.throughput\<close> are null.
\<close>

theorem C9_degenerate_geometry:
  assumes "\<not> length (segment samples spawnTms clickTms) < 4"
  shows "\<exists>r. extractAttemptFeatures samples spawnTms clickTms tg prevClickTms = Inr r
     \<and> (pathLengthNorm (spatial r) = Some 0 \<longrightarrow> straightness (spatial r) = None)
     \<and> (t_radius tg = 0 \<longrightarrow> errorDistNorm (spatial r) = None \<and> f_ID (fitts r) = None
            \<and> f_throughput (fitts r) = None)"
proof -
  from extract_full [OF assms, of tg prevClickTms]
  obtain r where r: "extractAttemptFeatures samples spawnTms clickTms tg prevClickTms = Inr r"
    and sp: "spatial r = \<lparr>errorDistNorm = (if t_radius tg > 0
             then Some (dist_pt (pos (moveSegOf (segment samples spawnTms clickTms) ! (length (moveSegOf (segment samples spawnTms clickTms)) - 1))) (centre tg) / t_radius tg) else None),
          pathLengthNorm = Some (pathLength (moveSegOf (segment samples spawnTms clickTms))),
          directDistNorm = Some (dist_pt (pos (moveSegOf (segment samples spawnTms clickTms) ! 0)) (centre tg)),
          straightness = (if pathLength (moveSegOf (segment samples spawnTms clickTms)) > 0
             then Some (dist_pt (pos (moveSegOf (segment samples spawnTms clickTms) ! 0)) (centre tg) / pathLength (moveSegOf (segment samples spawnTms clickTms))) else None)\<rparr>"
    and fi: "f_ID (fitts r) = (if 2 * t_radius tg > 0
             then Some (log 2 (dist_pt (pos (moveSegOf (segment samples spawnTms clickTms) ! 0)) (centre tg) / (2 * t_radius tg) + 1)) else None)"
      "f_throughput (fitts r) = (if 2 * t_radius tg > 0
             then Some (log 2 (dist_pt (pos (moveSegOf (segment samples spawnTms clickTms) ! 0)) (centre tg) / (2 * t_radius tg) + 1)
                        / max ((s_tms (moveSegOf (segment samples spawnTms clickTms) ! (length (moveSegOf (segment samples spawnTms clickTms)) - 1)) - s_tms (moveSegOf (segment samples spawnTms clickTms) ! 0)) / 1000) 0.05)
             else None)"
    by auto
  have "pathLengthNorm (spatial r) = Some 0 \<longrightarrow> straightness (spatial r) = None"
    by (simp add: sp)
  moreover have "t_radius tg = 0 \<longrightarrow> errorDistNorm (spatial r) = None \<and> f_ID (fitts r) = None
            \<and> f_throughput (fitts r) = None"
    by (simp add: sp fi)
  ultimately show ?thesis using r by blast
qed

theorem C9_degenerate_geometry_witness:
  "\<not> length (segment restingPointer 0 100) < 4 \<and> t_radius pointTarget = 0
   \<and> (\<exists>r. extractAttemptFeatures restingPointer 0 100 pointTarget None = Inr r
        \<and> pathLengthNorm (spatial r) = Some 0 \<and> straightness (spatial r) = None
        \<and> errorDistNorm (spatial r) = None \<and> f_ID (fitts r) = None
        \<and> f_throughput (fitts r) = None)"
proof -
  have rad: "t_radius pointTarget = 0" by (simp add: pointTarget_def)
  from C9_degenerate_geometry [OF resting_full, of pointTarget None]
  obtain r where r: "extractAttemptFeatures restingPointer 0 100 pointTarget None = Inr r"
    and p: "pathLengthNorm (spatial r) = Some 0 \<longrightarrow> straightness (spatial r) = None"
    and z: "t_radius pointTarget = 0 \<longrightarrow> errorDistNorm (spatial r) = None \<and> f_ID (fitts r) = None
            \<and> f_throughput (fitts r) = None"
    by blast
  from extract_full [OF resting_full, of pointTarget None] r
  have "pathLengthNorm (spatial r) = Some 0"
    by (auto simp: resting_ms pathLength_resting)
  with p z rad r resting_full show ?thesis by blast
qed

lemma sorted_moveSeg:
  assumes "sorted (map s_tms samples)"
  shows "sorted (map s_tms (moveSegOf (segment samples sp ck)))"
proof -
  have "sorted (map s_tms (segment samples sp ck))"
    unfolding segment_def using assms by (rule sorted_filter)
  then show ?thesis
    unfolding moveSegOf_def drop_map [symmetric] by (rule sorted_wrt_drop)
qed

lemma moveSeg_in_window:
  assumes "s \<in> set (moveSegOf (segment samples sp ck))"
  shows "sp \<le> s_tms s \<and> s_tms s \<le> ck"
proof -
  from assms have "s \<in> set (segment samples sp ck)"
    unfolding moveSegOf_def by (rule in_set_dropD)
  then show ?thesis by (simp add: segment_def)
qed

text \<open>
  C10. When the samples are sorted by timestamp and \<open>clickTms \<ge> spawnTms\<close>, a movement time
  that is not null lies between zero and the reaction time.
\<close>

theorem C10_movement_time_bounds:
  assumes srt: "sorted (map s_tms samples)"
    and le: "spawnTms \<le> clickTms"
    and res: "extractAttemptFeatures samples spawnTms clickTms tg prevClickTms = Inr r"
    and mt: "movementTimeMs (timing r) = Some mt"
  shows "\<exists>rt. reactionTimeMs (timing r) = Some rt \<and> 0 \<le> mt \<and> mt \<le> rt"
proof -
  define ms where "ms = moveSegOf (segment samples spawnTms clickTms)"
  have full: "\<not> length (segment samples spawnTms clickTms) < 4"
  proof
    assume "length (segment samples spawnTms clickTms) < 4"
    then have "movementTimeMs (timing r) = None"
      using res by (auto simp: extractAttemptFeatures_def)
    with mt show False by simp
  qed
  then have "segment samples spawnTms clickTms \<noteq> []" by auto
  then have ne: "ms \<noteq> []" unfolding ms_def by (rule moveSegOf_nonempty)
  from extract_full [OF full, of tg prevClickTms] res
  have tm: "timing r = \<lparr>reactionTimeMs = Some (clickTms - spawnTms),
          movementTimeMs = Some (s_tms (ms ! (length ms - 1)) - s_tms (ms ! 0)),
          interTapMs = (case prevClickTms of Some p \<Rightarrow> Some (clickTms - p) | None \<Rightarrow> None)\<rparr>"
    unfolding ms_def by auto
  have mt_eq: "mt = s_tms (ms ! (length ms - 1)) - s_tms (ms ! 0)"
    using mt tm by simp
  have first_in: "ms ! 0 \<in> set ms" and last_in: "ms ! (length ms - 1) \<in> set ms"
    using ne by simp_all
  have "sorted (map s_tms ms)" unfolding ms_def using srt by (rule sorted_moveSeg)
  then have "map s_tms ms ! 0 \<le> map s_tms ms ! (length ms - 1)"
    using ne by (intro sorted_nth_mono) simp_all
  then have ge: "0 \<le> mt" using ne by (simp add: mt_eq)
  have "sp_le": "spawnTms \<le> s_tms (ms ! 0)"
    using moveSeg_in_window [of "ms ! 0" samples spawnTms clickTms] first_in
    unfolding ms_def by simp
  have "s_tms (ms ! (length ms - 1)) \<le> clickTms"
    using moveSeg_in_window [of "ms ! (length ms - 1)" samples spawnTms clickTms] last_in
    unfolding ms_def by simp
  with sp_le have "mt \<le> clickTms - spawnTms" by (simp add: mt_eq)
  with ge tm show ?thesis by simp
qed

lemma sorted_straightLine: "sorted (map s_tms straightLine)"
  by (simp add: straightLine_def tms_sampleAt)

theorem C10_movement_time_bounds_witness:
  "sorted (map s_tms straightLine) \<and> (0::real) \<le> 100
   \<and> (\<exists>r. extractAttemptFeatures straightLine 0 100 lineTarget None = Inr r
        \<and> movementTimeMs (timing r) = Some 100 \<and> reactionTimeMs (timing r) = Some 100)"
proof -
  from extract_full [OF line_full, of lineTarget None]
  obtain r where r: "extractAttemptFeatures straightLine 0 100 lineTarget None = Inr r"
    and mt: "movementTimeMs (timing r) = Some 100"
    by (auto simp: line_ms line_ends tms_sampleAt)
  from C10_movement_time_bounds [OF sorted_straightLine _ r mt]
  obtain rt where rt: "reactionTimeMs (timing r) = Some rt" and "100 \<le> rt" by auto
  moreover from extract_full [OF line_full, of lineTarget None] r
  have "reactionTimeMs (timing r) = Some 100" by auto
  ultimately show ?thesis using r mt sorted_straightLine by auto
qed

section \<open>Properties of the overshoot detectors\<close>

lemma fold_count:
  "fold (\<lambda>i c. if P i then c + 1 else c) xs (c0::nat) = c0 + length (filter P xs)"
  by (induction xs arbitrary: c0) auto

lemma filter_upt_shift:
  "length (filter (\<lambda>i. Q (i + k)) [a..<b]) = length (filter Q [a + k..<b + k])"
proof -
  have "map (\<lambda>i. i + k) [a..<b] = [a + k..<b + k]"
    by (induction b) (auto simp: le_Suc_eq)
  then have "filter Q [a + k..<b + k] = filter Q (map (\<lambda>i. i + k) [a..<b])" by simp
  also have "length \<dots> = length (filter (Q \<circ> (\<lambda>i. i + k)) [a..<b])"
    by (simp add: filter_map)
  finally show ?thesis by (simp add: comp_def)
qed

text \<open>
  The index in double precision at some lengths: where the exact \<open>0.7 n\<close> is not an integer it
  is its floor; at 10 and 20 the product rounds to the integer; at 90, 170 and 180 it rounds
  below the integer, and the index is one less than the floor of the exact product.
\<close>

lemma bitLength_numeral:
  "bitLength 0 = 0"
  "bitLength (Suc 0) = 1"
  "bitLength 1 = 1"
  "bitLength (numeral (Num.Bit0 n)) = Suc (bitLength (numeral n))"
  "bitLength (numeral (Num.Bit1 n)) = Suc (bitLength (numeral n))"
  by (simp_all add: bitLength.simps [of 0] bitLength.simps [of "Suc 0"]
      bitLength.simps [of "numeral _"] numeral_Bit0_div_2 numeral_Bit1_div_2)

lemma finalPhaseStart_values:
  "finalPhaseStart 6 = 4" "finalPhaseStart 7 = 4" "finalPhaseStart 10 = 7"
  "finalPhaseStart 20 = 14" "finalPhaseStart 90 = 62" "finalPhaseStart 100 = 70"
  "finalPhaseStart 170 = 118" "finalPhaseStart 180 = 125"
  by (simp_all add: finalPhaseStart_def roundToDouble_def double_0_7_def Let_def
      bitLength_numeral)

lemma reversalCount_eq:
  "reversalCount (distances ms tg) (4 * t_radius tg) = globalReversals ms tg"
  by (simp add: reversalCount_def globalReversals_def Let_def fold_count reversalAt_def
      distances_def)

lemma finalPhaseOvershoots_eq: "finalPhaseOvershoots ms tg = finalApproachReversals ms tg"
proof (cases "length ms > 5")
  case False
  then show ?thesis by (simp add: finalPhaseOvershoots_def finalApproachReversals_def)
next
  case True
  define k where "k = finalPhaseStart (length ms)"
  define d where "d = distances ms tg"
  define finalD where "finalD = map (\<lambda>s. dist_pt (pos s) (centre tg)) (drop k ms)"
  have len: "length finalD = length ms - k" by (simp add: finalD_def)
  have drop: "finalD = drop k d" by (simp add: finalD_def d_def distances_def drop_map)
  have nth: "finalD ! j = d ! (j + k)" if "j < length ms - k" for j
    using that by (simp add: drop d_def distances_def add.commute)
  have "finalPhaseOvershoots ms tg
        = length (filter (\<lambda>i. finalD ! (i - 1) - finalD ! (i - 2) < - 0.001
                            \<and> finalD ! i - finalD ! (i - 1) > 0.001) [2..<length finalD])"
    using True
    by (simp add: finalPhaseOvershoots_def Let_def fold_count k_def [symmetric]
        finalD_def [symmetric] len)
  also have "\<dots> = length (filter (\<lambda>i. reversalAt d (i + k)) [2..<length ms - k])"
  proof -
    have "filter (\<lambda>i. finalD ! (i - 1) - finalD ! (i - 2) < - 0.001
                            \<and> finalD ! i - finalD ! (i - 1) > 0.001) [2..<length ms - k]
        = filter (\<lambda>i. reversalAt d (i + k)) [2..<length ms - k]"
    proof (rule filter_cong [OF refl])
      fix i assume "i \<in> set [2..<length ms - k]"
      then have i: "2 \<le> i" "i < length ms - k" by auto
      then have "finalD ! i = d ! (i + k)" "finalD ! (i - 1) = d ! (i + k - 1)"
        "finalD ! (i - 2) = d ! (i + k - 2)"
        using nth [of i] nth [of "i - 1"] nth [of "i - 2"] by auto
      then show "(finalD ! (i - 1) - finalD ! (i - 2) < - 0.001
                            \<and> finalD ! i - finalD ! (i - 1) > 0.001) = reversalAt d (i + k)"
        by (simp add: reversalAt_def)
    qed
    then show ?thesis by (simp add: len)
  qed
  also have "\<dots> = length (filter (reversalAt d) [2 + k..<length ms - k + k])"
    by (rule filter_upt_shift)
  also have "\<dots> = finalApproachReversals ms tg"
    using True
    by (cases "k \<le> length ms")
      (simp_all add: finalApproachReversals_def Let_def k_def [symmetric] d_def [symmetric]
        add.commute)
  finally show ?thesis .
qed

lemma oscillationCount_eq:
  "oscillationCount ms (distances ms tg) (4 * t_radius tg) = lateOscillations ms tg"
proof -
  have "(\<lambda>i c. if distances ms tg ! i < 4 * t_radius tg
                then (if xReversal ms i \<or> yReversal ms i then c + 1 else c) else c)
      = (\<lambda>i (c::nat). if distances ms tg ! i < 4 * t_radius tg \<and> (xReversal ms i \<or> yReversal ms i)
                then c + 1 else c)"
    by (auto simp: fun_eq_iff)
  then show ?thesis
    by (simp add: oscillationCount_def lateOscillations_def Let_def fold_count)
qed

lemma overshoots_eq:
  "overshoots ms tg
   = max (globalReversals ms tg) (max (finalApproachReversals ms tg) (lateOscillations ms tg))"
  by (simp add: overshoots_def Let_def reversalCount_eq finalPhaseOvershoots_eq
      oscillationCount_eq)

text \<open>
  C4 (amended). On the full extraction path \<open>overshootCount\<close> is the maximum of three counts
  over the moving segment: the reversals of the distance to the target (delta below \<open>-0.001\<close>,
  then above \<open>0.001\<close>) at a distance below \<open>4 \<times> radius\<close>; the reversals, without the gate,
  whose three samples lie in the final phase of a segment of more than five samples, which
  starts at the index \<^verbatim>\<open>Math.floor(length * 0.7)\<close> as double precision computes it; and
  the samples inside the gate at which the x or y step reverses beyond \<open>0.002\<close> on both sides,
  counted from the fourth sample of the segment on and only when the segment has more than
  four samples.
\<close>

theorem C4_overshoot_maximum:
  assumes "\<not> length (segment samples spawnTms clickTms) < 4"
  shows "\<exists>r. extractAttemptFeatures samples spawnTms clickTms tg prevClickTms = Inr r
     \<and> overshootCount (kinematics r)
       = Some (real (max (globalReversals (moveSegOf (segment samples spawnTms clickTms)) tg)
                      (max (finalApproachReversals (moveSegOf (segment samples spawnTms clickTms)) tg)
                           (lateOscillations (moveSegOf (segment samples spawnTms clickTms)) tg))))"
  using extract_full [OF assms, of tg prevClickTms] by (auto simp: overshoots_eq)


lemma segment_wobble: "segment wobble 0 100 = wobble"
  by (simp add: segment_def wobble_def tms_sampleAt)

lemma startIdx_wobble: "startIdx wobble = 0"
  by (simp add: startIdx_def wobble_def upt_rec pos_sampleAt dist_pt_same_y EPS_def)

lemma wobble_ms: "moveSegOf (segment wobble 0 100) = wobble"
  by (simp add: segment_wobble moveSegOf_def startIdx_wobble)

lemma wobble_full: "\<not> length (segment wobble 0 100) < 4"
  by (simp add: segment_wobble) (simp add: wobble_def)

lemma x_sampleAt: "s_x (sampleAt t a b) = a" and y_sampleAt: "s_y (sampleAt t a b) = b"
  by (simp_all add: sampleAt_def)

lemma distances_wobble: "distances wobble wobbleTarget = [0.2, 0.21, 0.2, 0.2, 0.2]"
  by (simp add: distances_def wobble_def wobbleTarget_def centre_def pos_sampleAt dist_pt_same_y)

lemma length_wobble: "length wobble = 5"
  by (simp add: wobble_def)

lemma radius_wobbleTarget: "t_radius wobbleTarget = 0.1"
  by (simp add: wobbleTarget_def)

lemma radius_nearTarget: "t_radius nearTarget = 0.05"
  by (simp add: nearTarget_def)

lemma wobble_global: "globalReversals wobble wobbleTarget = 0"
  by (simp add: globalReversals_def Let_def distances_wobble length_wobble upt_rec reversalAt_def)

lemma wobble_final: "finalApproachReversals wobble wobbleTarget = 0"
  by (simp add: finalApproachReversals_def length_wobble)

lemma wobble_x: "map s_x wobble = [0.5, 0.51, 0.5, 0.5, 0.5]" and wobble_y: "map s_y wobble = [0.5, 0.5, 0.5, 0.5, 0.5]"
  by (simp_all add: wobble_def x_sampleAt y_sampleAt)

lemma wobble_xrev: "xReversal wobble 2" "\<not> xReversal wobble 3" "\<not> xReversal wobble 4"
  by (simp_all add: xReversal_def wobble_def x_sampleAt)

lemma wobble_yrev: "\<not> yReversal wobble 2" "\<not> yReversal wobble 3" "\<not> yReversal wobble 4"
  by (simp_all add: yReversal_def wobble_def y_sampleAt)

lemma wobble_late: "lateOscillations wobble wobbleTarget = 0"
  by (simp add: lateOscillations_def Let_def distances_wobble length_wobble upt_rec wobble_xrev
      wobble_yrev)

lemma wobble_positional: "positionalOscillations wobble wobbleTarget = 1"
  by (simp add: positionalOscillations_def Let_def distances_wobble length_wobble upt_rec
      wobble_xrev wobble_yrev radius_wobbleTarget)

text \<open>
  C4 as stated fails: the third detector of the source skips the third sample of the moving
  segment. For a wobble at that sample the source reports no overshoot, while the maximum of
  the three counts as the claim words them is 1.
\<close>

theorem C4_counterexample:
  "overshootCountOf wobble 0 100 wobbleTarget None = Some 0
   \<and> real (max (globalReversals (moveSegOf (segment wobble 0 100)) wobbleTarget)
            (max (finalApproachReversals (moveSegOf (segment wobble 0 100)) wobbleTarget)
                 (positionalOscillations (moveSegOf (segment wobble 0 100)) wobbleTarget))) = 1"
proof -
  from extract_full [OF wobble_full, of wobbleTarget None]
  have "overshootCountOf wobble 0 100 wobbleTarget None = Some 0"
    by (auto simp: overshootCountOf_def wobble_ms overshoots_eq wobble_global wobble_final
        wobble_late)
  then show ?thesis
    by (simp add: wobble_ms wobble_global wobble_final wobble_positional)
qed

lemma segment_once: "segment overshootOnce 0 100 = overshootOnce"
  by (simp add: segment_def overshootOnce_def tms_sampleAt)

lemma startIdx_once: "startIdx overshootOnce = 0"
  by (simp add: startIdx_def overshootOnce_def upt_rec pos_sampleAt dist_pt_same_y EPS_def)

lemma once_ms: "moveSegOf (segment overshootOnce 0 100) = overshootOnce"
  by (simp add: segment_once moveSegOf_def startIdx_once)

lemma once_full: "\<not> length (segment overshootOnce 0 100) < 4"
  by (simp add: segment_once) (simp add: overshootOnce_def)

lemma distances_once: "distances overshootOnce nearTarget = [0.2, 0.1, 0, 0.02, 0]"
  by (simp add: distances_def overshootOnce_def nearTarget_def centre_def pos_sampleAt
      dist_pt_same_y)

lemma length_once: "length overshootOnce = 5"
  by (simp add: overshootOnce_def)

lemma once_global: "globalReversals overshootOnce nearTarget = 1"
  by (simp add: globalReversals_def Let_def distances_once length_once upt_rec reversalAt_def
      radius_nearTarget)

lemma once_final: "finalApproachReversals overshootOnce nearTarget = 0"
  by (simp add: finalApproachReversals_def length_once)

lemma once_xrev: "\<not> xReversal overshootOnce 3" "xReversal overshootOnce 4"
  by (simp_all add: xReversal_def overshootOnce_def x_sampleAt)

lemma once_yrev: "\<not> yReversal overshootOnce 3" "\<not> yReversal overshootOnce 4"
  by (simp_all add: yReversal_def overshootOnce_def y_sampleAt)

lemma once_late: "lateOscillations overshootOnce nearTarget = 1"
  by (simp add: lateOscillations_def Let_def distances_once length_once upt_rec once_xrev
      once_yrev radius_nearTarget)

text \<open>An approach that passes the target once counts one overshoot.\<close>

lemma overshootOnce_count: "overshootCountOf overshootOnce 0 100 nearTarget None = Some 1"
  using extract_full [OF once_full, of nearTarget None]
  by (auto simp: overshootCountOf_def once_ms overshoots_eq once_global once_final once_late)

text \<open>
  A trace of 90 samples whose only reversal has its three samples at the indices 62 to 64:
  the final phase starts at 62, so the reversal is counted.
\<close>

lemma startIdx_nth:
  assumes "seg \<noteq> []"
  shows "startIdx seg
         = (case find (\<lambda>i. dist_pt (pos (seg ! i)) (pos (seg ! 0)) > EPS) [1..<length seg] of
              None \<Rightarrow> 0 | Some i \<Rightarrow> i - 1)"
  using assms by (cases seg) (simp_all add: startIdx_def)

lemma length_late: "length lateReversal = 90"
  by (simp add: lateReversal_def)

lemma nth_late:
  "i < 90 \<Longrightarrow> lateReversal ! i = sampleAt (10 * real i) (lateReversalX i) 0.5"
  by (simp add: lateReversal_def)

lemma segment_late: "segment lateReversal 0 1000 = lateReversal"
  unfolding segment_def
  by (rule filter_True) (auto simp: lateReversal_def tms_sampleAt)

lemma startIdx_late: "startIdx lateReversal = 0"
proof -
  have ne: "lateReversal \<noteq> []" using length_late by auto
  have "[1..<length lateReversal] = 1 # [2..<90]"
    unfolding length_late by (simp add: upt_conv_Cons)
  moreover have "dist_pt (pos (lateReversal ! 1)) (pos (lateReversal ! 0)) > EPS"
    by (simp add: nth_late pos_sampleAt dist_pt_same_y lateReversalX_def EPS_def del: One_nat_def)
  ultimately show ?thesis
    unfolding startIdx_nth [OF ne] by simp
qed

lemma late_ms: "moveSegOf (segment lateReversal 0 1000) = lateReversal"
  by (simp add: segment_late moveSegOf_def startIdx_late)

lemma late_full: "\<not> length (segment lateReversal 0 1000) < 4"
  by (simp add: segment_late length_late)

lemma late_distance:
  "i < 90 \<Longrightarrow> distances lateReversal farTarget ! i = lateReversalX i - 0.1"
  by (simp add: distances_def length_late nth_late pos_sampleAt centre_def farTarget_def
      dist_pt_same_y lateReversalX_def)

lemma late_outside_gate:
  "i < 90 \<Longrightarrow> \<not> distances lateReversal farTarget ! i < 4 * t_radius farTarget"
  by (simp add: late_distance) (simp add: lateReversalX_def farTarget_def)

lemma late_global: "globalReversals lateReversal farTarget = 0"
  by (simp add: globalReversals_def Let_def length_late filter_empty_conv late_outside_gate)

lemma late_oscillations: "lateOscillations lateReversal farTarget = 0"
  by (simp add: lateOscillations_def Let_def length_late filter_empty_conv late_outside_gate)

lemma late_reversal_at_64: "reversalAt (distances lateReversal farTarget) 64"
  by (simp add: reversalAt_def late_distance lateReversalX_def)

lemma late_no_reversal_after:
  assumes "65 \<le> i" and "i < 90"
  shows "\<not> reversalAt (distances lateReversal farTarget) i"
proof -
  have "i - 1 < 90" "i - 1 \<noteq> 63" "i - 1 \<noteq> 0" "i \<noteq> 63" "i \<noteq> 0" using assms by auto
  then show ?thesis using assms(2)
    by (simp add: reversalAt_def late_distance lateReversalX_def)
qed

lemma late_final: "finalApproachReversals lateReversal farTarget = 1"
proof -
  have "[finalPhaseStart 90 + 2..<90] = 64 # [65..<90]"
    by (simp add: finalPhaseStart_values upt_conv_Cons)
  moreover have "filter (reversalAt (distances lateReversal farTarget)) [65..<90] = []"
    by (auto simp: filter_empty_conv late_no_reversal_after)
  ultimately show ?thesis
    by (simp add: finalApproachReversals_def Let_def length_late late_reversal_at_64)
qed

theorem C4_overshoot_maximum_witness:
  "\<not> length (segment lateReversal 0 1000) < 4
   \<and> (\<exists>r. extractAttemptFeatures lateReversal 0 1000 farTarget None = Inr r
        \<and> overshootCount (kinematics r) = Some 1)"
  using late_full C4_overshoot_maximum [OF late_full, of farTarget None]
  by (simp add: late_ms late_global late_final late_oscillations)

section \<open>Properties of the round aggregation\<close>

lemma computeRoundFeatures_None_iff:
  "computeRoundFeatures d sid rnd = None \<longleftrightarrow> getSessionAttempts d sid (Some rnd) = []"
  by (simp add: computeRoundFeatures_def Let_def)

lemma computeRoundFeatures_nonempty:
  "computeRoundFeatures d sid rnd = Some rf \<Longrightarrow> getSessionAttempts d sid (Some rnd) \<noteq> []"
  by (auto simp: computeRoundFeatures_def Let_def)

text \<open>The object of a round, property by property, over all attempts or over the hits.\<close>

lemma computeRoundFeatures_Some:
  assumes "computeRoundFeatures d sid rnd = Some rf"
  defines "attempts \<equiv> getSessionAttempts d sid (Some rnd)"
  defines "hits \<equiv> hitsOf attempts"
  shows "rf =
          [(''reactionTime_mean'', mean (valuesOver (\<lambda>a. reactionTimeMs (a_timing a)) attempts)),
           (''reactionTime_std'', std (valuesOver (\<lambda>a. reactionTimeMs (a_timing a)) attempts)),
           (''reactionTime_median'', median (valuesOver (\<lambda>a. reactionTimeMs (a_timing a)) attempts)),
           (''movementTime_mean'', mean (valuesOver (\<lambda>a. movementTimeMs (a_timing a)) hits)),
           (''movementTime_std'', std (valuesOver (\<lambda>a. movementTimeMs (a_timing a)) hits)),
           (''movementTime_median'', median (valuesOver (\<lambda>a. movementTimeMs (a_timing a)) hits)),
           (''interTapTime_mean'', mean (valuesOver (\<lambda>a. interTapMs (a_timing a)) attempts)),
           (''interTapTime_std'', std (valuesOver (\<lambda>a. interTapMs (a_timing a)) attempts)),
           (''errorDist_mean'', mean (valuesOver (\<lambda>a. errorDistNorm (a_spatial a)) hits)),
           (''errorDist_std'', std (valuesOver (\<lambda>a. errorDistNorm (a_spatial a)) hits)),
           (''pathLength_mean'', mean (valuesOver (\<lambda>a. pathLengthNorm (a_spatial a)) hits)),
           (''straightness_mean'', mean (valuesOver (\<lambda>a. straightness (a_spatial a)) hits)),
           (''straightness_std'', std (valuesOver (\<lambda>a. straightness (a_spatial a)) hits)),
           (''meanSpeed_mean'', mean (valuesOver (\<lambda>a. meanSpeed (a_kinematics a)) hits)),
           (''peakSpeed_mean'', mean (valuesOver (\<lambda>a. peakSpeed (a_kinematics a)) hits)),
           (''jerkRMS_mean'', mean (valuesOver (\<lambda>a. jerkRMS (a_kinematics a)) hits)),
           (''jerkRMS_std'', std (valuesOver (\<lambda>a. jerkRMS (a_kinematics a)) hits)),
           (''submovementCount_mean'', mean (valuesOver (\<lambda>a. submovementCount (a_kinematics a)) hits)),
           (''submovementCount_std'', std (valuesOver (\<lambda>a. submovementCount (a_kinematics a)) hits)),
           (''overshootCount_mean'', mean (valuesOver (\<lambda>a. overshootCount (a_kinematics a)) hits)),
           (''overshootCount_std'', std (valuesOver (\<lambda>a. overshootCount (a_kinematics a)) hits)),
           (''throughput_mean'', mean (valuesOver (\<lambda>a. f_throughput (a_fitts a)) hits)),
           (''throughput_std'', std (valuesOver (\<lambda>a. f_throughput (a_fitts a)) hits)),
           (''ID_mean'', mean (valuesOver (\<lambda>a. f_ID (a_fitts a)) hits)),
           (''nAttempts'', Some (real (length attempts))),
           (''nHits'', Some (real (length hits))),
           (''nMisses'', Some (real (length (filter (\<lambda>a. \<not> c_hit (a_click a)) attempts)))),
           (''hitRate'', Some (real (length hits) / real (length attempts)))]"
  using assms(1) computeRoundFeatures_nonempty [OF assms(1)]
  unfolding attempts_def hits_def hitsOf_def valuesOver_def
  by (simp add: computeRoundFeatures_def Let_def split: if_splits)

lemma length_hits_misses:
  "length (filter (\<lambda>a. \<not> c_hit (a_click a)) as) = length as - length (hitsOf as)"
  "length (hitsOf as) \<le> length as"
  using sum_length_filter_compl [of "\<lambda>a. c_hit (a_click a)" as]
  by (simp_all add: hitsOf_def)

text \<open>
  C8. \<open>computeRoundFeatures\<close> returns null exactly when the round has no attempts; otherwise
  \<open>nAttempts\<close> is the number of attempts, \<open>nHits\<close> the number of attempts with
  \<open>click.hit\<close>, \<open>nAttempts = nHits + nMisses\<close> and \<open>hitRate = nHits / nAttempts\<close>.
\<close>

theorem C8_round_counts:
  "(computeRoundFeatures d sid rnd = None \<longleftrightarrow> getSessionAttempts d sid (Some rnd) = [])
   \<and> (\<forall>rf. computeRoundFeatures d sid rnd = Some rf \<longrightarrow>
        (\<exists>nA nH nM. getProp rf ''nAttempts'' = Some nA \<and> getProp rf ''nHits'' = Some nH
            \<and> getProp rf ''nMisses'' = Some nM
            \<and> nA = real (length (getSessionAttempts d sid (Some rnd)))
            \<and> nH = real (length (filter (\<lambda>a. c_hit (a_click a))
                                     (getSessionAttempts d sid (Some rnd))))
            \<and> nA = nH + nM
            \<and> getProp rf ''hitRate'' = Some (nH / nA)))"
proof (intro conjI allI impI)
  show "computeRoundFeatures d sid rnd = None \<longleftrightarrow> getSessionAttempts d sid (Some rnd) = []"
    by (rule computeRoundFeatures_None_iff)
next
  fix rf
  assume rf: "computeRoundFeatures d sid rnd = Some rf"
  define attempts where "attempts = getSessionAttempts d sid (Some rnd)"
  note eq = computeRoundFeatures_Some [OF rf, folded attempts_def]
  have a: "getProp rf ''nAttempts'' = Some (real (length attempts))"
    by (subst eq) (simp add: getProp_def)
  have h: "getProp rf ''nHits'' = Some (real (length (hitsOf attempts)))"
    by (subst eq) (simp add: getProp_def)
  have m: "getProp rf ''nMisses'' = Some (real (length attempts - length (hitsOf attempts)))"
    by (subst eq) (simp add: getProp_def length_hits_misses)
  have r: "getProp rf ''hitRate''
           = Some (real (length (hitsOf attempts)) / real (length attempts))"
    by (subst eq) (simp add: getProp_def)
  have "real (length attempts)
        = real (length (hitsOf attempts)) + real (length attempts - length (hitsOf attempts))"
    using length_hits_misses(2) [of attempts] by simp
  with a h m r show "\<exists>nA nH nM. getProp rf ''nAttempts'' = Some nA \<and> getProp rf ''nHits'' = Some nH
            \<and> getProp rf ''nMisses'' = Some nM
            \<and> nA = real (length (getSessionAttempts d sid (Some rnd)))
            \<and> nH = real (length (filter (\<lambda>a. c_hit (a_click a))
                                     (getSessionAttempts d sid (Some rnd))))
            \<and> nA = nH + nM
            \<and> getProp rf ''hitRate'' = Some (nH / nA)"
    unfolding attempts_def hitsOf_def by blast
qed


lemma getSessionAttempts_dbOf:
  "getSessionAttempts (dbOf as) ''s1'' (Some r) = filter (\<lambda>a. a_round a = r) as"
  by (simp add: getSessionAttempts_def dbOf_def)

lemma mkAttempt_sel:
  "a_round (mkAttempt rnd hit rt mt tp) = rnd"
  "c_hit (a_click (mkAttempt rnd hit rt mt tp)) = hit"
  "reactionTimeMs (a_timing (mkAttempt rnd hit rt mt tp)) = rt"
  "movementTimeMs (a_timing (mkAttempt rnd hit rt mt tp)) = mt"
  "f_throughput (a_fitts (mkAttempt rnd hit rt mt tp)) = tp"
  by (simp_all add: mkAttempt_def empty_fitts_def)

theorem C8_round_counts_witness:
  "computeRoundFeatures sixOfTen ''s1'' 2 = None
   \<and> (\<exists>rf. computeRoundFeatures sixOfTen ''s1'' 1 = Some rf
        \<and> summaryCounts rf
          = \<lparr>nTargets = Some 10, nHits = Some 6, nMisses = Some 4, hitRate = Some 0.6\<rparr>)"
proof -
  have r2: "getSessionAttempts sixOfTen ''s1'' (Some 2) = []"
    by (simp add: sixOfTen_def getSessionAttempts_dbOf mkAttempt_sel)
  have r1: "getSessionAttempts sixOfTen ''s1'' (Some 1)
            = replicate 6 (mkAttempt 1 True (Some 400) (Some 100) (Some 2))
              @ replicate 4 (mkAttempt 1 False (Some 500) (Some 300) None)"
    by (simp add: sixOfTen_def getSessionAttempts_dbOf mkAttempt_sel)
  note c8_2 = C8_round_counts [of sixOfTen "''s1''" 2]
  note c8_1 = C8_round_counts [of sixOfTen "''s1''" 1]
  from c8_2 r2 have none: "computeRoundFeatures sixOfTen ''s1'' 2 = None" by blast
  from c8_1 r1 obtain rf where rf: "computeRoundFeatures sixOfTen ''s1'' 1 = Some rf"
    by (cases "computeRoundFeatures sixOfTen ''s1'' 1") auto
  with c8_1 obtain nA nH nM where
    p: "getProp rf ''nAttempts'' = Some nA" "getProp rf ''nHits'' = Some nH"
       "getProp rf ''nMisses'' = Some nM" "getProp rf ''hitRate'' = Some (nH / nA)"
    and v: "nA = real (length (getSessionAttempts sixOfTen ''s1'' (Some 1)))"
       "nH = real (length (filter (\<lambda>a. c_hit (a_click a))
                                     (getSessionAttempts sixOfTen ''s1'' (Some 1))))"
       "nA = nH + nM"
    by blast
  from v [unfolded r1] have "nA = 10" "nH = 6" "nM = 4"
    by (simp_all add: mkAttempt_sel)
  with p have "summaryCounts rf
          = \<lparr>nTargets = Some 10, nHits = Some 6, nMisses = Some 4, hitRate = Some 0.6\<rparr>"
    by (simp add: summaryCounts_def)
  with none rf show ?thesis by blast
qed

text \<open>
  Outside the movement time the round aggregation uses the subsets that C2 names: the
  reaction-time and inter-tap features are computed over all attempts of the round, every
  spatial, kinematic and Fitts feature over the hits.
\<close>

lemma round_features_outside_movement_time:
  assumes "computeRoundFeatures d sid rnd = Some rf"
  defines "attempts \<equiv> getSessionAttempts d sid (Some rnd)"
  defines "hits \<equiv> hitsOf attempts"
  shows "getProp rf ''reactionTime_mean'' = mean (valuesOver (\<lambda>a. reactionTimeMs (a_timing a)) attempts)
    \<and> getProp rf ''reactionTime_std'' = std (valuesOver (\<lambda>a. reactionTimeMs (a_timing a)) attempts)
    \<and> getProp rf ''reactionTime_median'' = median (valuesOver (\<lambda>a. reactionTimeMs (a_timing a)) attempts)
    \<and> getProp rf ''interTapTime_mean'' = mean (valuesOver (\<lambda>a. interTapMs (a_timing a)) attempts)
    \<and> getProp rf ''interTapTime_std'' = std (valuesOver (\<lambda>a. interTapMs (a_timing a)) attempts)
    \<and> getProp rf ''errorDist_mean'' = mean (valuesOver (\<lambda>a. errorDistNorm (a_spatial a)) hits)
    \<and> getProp rf ''errorDist_std'' = std (valuesOver (\<lambda>a. errorDistNorm (a_spatial a)) hits)
    \<and> getProp rf ''pathLength_mean'' = mean (valuesOver (\<lambda>a. pathLengthNorm (a_spatial a)) hits)
    \<and> getProp rf ''straightness_mean'' = mean (valuesOver (\<lambda>a. straightness (a_spatial a)) hits)
    \<and> getProp rf ''straightness_std'' = std (valuesOver (\<lambda>a. straightness (a_spatial a)) hits)
    \<and> getProp rf ''meanSpeed_mean'' = mean (valuesOver (\<lambda>a. meanSpeed (a_kinematics a)) hits)
    \<and> getProp rf ''peakSpeed_mean'' = mean (valuesOver (\<lambda>a. peakSpeed (a_kinematics a)) hits)
    \<and> getProp rf ''jerkRMS_mean'' = mean (valuesOver (\<lambda>a. jerkRMS (a_kinematics a)) hits)
    \<and> getProp rf ''jerkRMS_std'' = std (valuesOver (\<lambda>a. jerkRMS (a_kinematics a)) hits)
    \<and> getProp rf ''submovementCount_mean'' = mean (valuesOver (\<lambda>a. submovementCount (a_kinematics a)) hits)
    \<and> getProp rf ''submovementCount_std'' = std (valuesOver (\<lambda>a. submovementCount (a_kinematics a)) hits)
    \<and> getProp rf ''overshootCount_mean'' = mean (valuesOver (\<lambda>a. overshootCount (a_kinematics a)) hits)
    \<and> getProp rf ''overshootCount_std'' = std (valuesOver (\<lambda>a. overshootCount (a_kinematics a)) hits)
    \<and> getProp rf ''throughput_mean'' = mean (valuesOver (\<lambda>a. f_throughput (a_fitts a)) hits)
    \<and> getProp rf ''throughput_std'' = std (valuesOver (\<lambda>a. f_throughput (a_fitts a)) hits)
    \<and> getProp rf ''ID_mean'' = mean (valuesOver (\<lambda>a. f_ID (a_fitts a)) hits)"
  unfolding computeRoundFeatures_Some [OF assms(1)] attempts_def hits_def
  by (intro conjI; simp add: getProp_def)

lemma hitAndMiss_round1:
  "getSessionAttempts hitAndMiss ''s1'' (Some 1)
   = [mkAttempt 1 True (Some 400) (Some 100) (Some 2), mkAttempt 1 False (Some 500) (Some 300) None]"
  by (simp add: hitAndMiss_def getSessionAttempts_dbOf mkAttempt_sel)

lemma hitAndMiss_present: "\<exists>rf. computeRoundFeatures hitAndMiss ''s1'' 1 = Some rf"
proof -
  have "computeRoundFeatures hitAndMiss ''s1'' 1 \<noteq> None"
    unfolding computeRoundFeatures_None_iff hitAndMiss_round1 by simp
  then show ?thesis by blast
qed

lemma mean_two: "mean [a, b] = Some ((a + b) / 2)" and mean_one: "mean [a] = Some a"
  by (simp_all add: mean_def)

text \<open>
  C2. The claim is that every timing feature, the movement time among them, is computed over
  all attempts of the round. The source computes the movement-time features over the hits:
  for a round of one hit with movement time 100 and one miss with movement time 300 it
  reports the mean 100, while the mean over all attempts of the round is 200.
\<close>

theorem C2_movement_time_over_hits:
  "optProp (computeRoundFeatures hitAndMiss ''s1'' 1) ''movementTime_mean'' = Some 100
   \<and> mean (valuesOver (\<lambda>a. movementTimeMs (a_timing a))
             (getSessionAttempts hitAndMiss ''s1'' (Some 1))) = Some 200"
proof -
  obtain rf where rf: "computeRoundFeatures hitAndMiss ''s1'' 1 = Some rf"
    using hitAndMiss_present by blast
  have "getProp rf ''movementTime_mean'' = Some 100"
    unfolding computeRoundFeatures_Some [OF rf]
    by (simp add: getProp_def hitAndMiss_round1 valuesOver_def hitsOf_def mkAttempt_sel
        nonNull_def List.map_filter_simps mean_one del: One_nat_def)
  moreover have "mean (valuesOver (\<lambda>a. movementTimeMs (a_timing a))
             (getSessionAttempts hitAndMiss ''s1'' (Some 1))) = Some 200"
    by (simp add: hitAndMiss_round1 valuesOver_def mkAttempt_sel nonNull_def
        List.map_filter_simps mean_two del: One_nat_def)
  ultimately show ?thesis by (simp add: rf optProp_def del: One_nat_def)
qed

section \<open>Properties of the session aggregation\<close>

lemma copyRound_other:
  assumes "\<And>key. k \<noteq> roundKey r key"
  shows "copyRound r rf m k = m k"
proof (cases rf)
  case None
  then show ?thesis by (simp add: copyRound_def)
next
  case (Some f)
  have "fold (\<lambda>(key, value) m. m(roundKey r key \<mapsto> value)) f m k = m k" for m
    using assms by (induction f arbitrary: m) (auto split: prod.splits)
  then show ?thesis using Some by (simp add: copyRound_def)
qed

lemma copyRound_None: "copyRound r None m = m"
  by (simp add: copyRound_def)

lemma roundKey_simps:
  "roundKey 1 key = ''r1_'' @ key" "roundKey 2 key = ''r2_'' @ key" "roundKey 3 key = ''r3_'' @ key"
  by (simp_all add: roundKey_def roundDigit_def)

text \<open>The session map before the trends are added.\<close>

lemma perRound_eq:
  "fold (\<lambda>r allFeatures. copyRound r ([f1, f2, f3] ! (r - 1)) allFeatures) [1, 2, 3] m
   = copyRound 3 f3 (copyRound 2 f2 (copyRound 1 f1 m))"
  by simp

lemma nonNull_simps:
  "nonNull [] = []" "nonNull (None # vs) = nonNull vs" "nonNull (Some v # vs) = v # nonNull vs"
  by (simp_all add: nonNull_def List.map_filter_simps)

lemma last_minus_first:
  "Suc 0 < length xs \<Longrightarrow> xs ! (length xs - Suc 0) - xs ! 0 = last xs - hd (xs :: real list)"
  by (cases xs) (simp_all add: last_conv_nth hd_conv_nth)

lemma session_trend_lookup:
  fixes d sid
  defines "F \<equiv> computeSessionFeatures d sid"
  defines "hs \<equiv> nonNull [optProp (computeRoundFeatures d sid 1) ''hitRate'',
                         optProp (computeRoundFeatures d sid 2) ''hitRate'',
                         optProp (computeRoundFeatures d sid 3) ''hitRate'']"
  defines "ts \<equiv> nonNull [optProp (computeRoundFeatures d sid 1) ''throughput_mean'',
                         optProp (computeRoundFeatures d sid 2) ''throughput_mean'',
                         optProp (computeRoundFeatures d sid 3) ''throughput_mean'']"
  shows "F ''hitRate_trend'' = (if length hs > 1 then Some (Some (last hs - hd hs)) else None)"
    and "F ''throughput_trend'' = (if length ts > 1 then Some (Some (last ts - hd ts)) else None)"
proof -
  define P where "P = copyRound 3 (computeRoundFeatures d sid 3)
      (copyRound 2 (computeRoundFeatures d sid 2)
        (copyRound 1 (computeRoundFeatures d sid 1) Map.empty))"
  have Ph: "P ''hitRate_trend'' = None" and Pt: "P ''throughput_trend'' = None"
    unfolding P_def by (simp_all add: copyRound_other roundKey_simps del: One_nat_def)
  have F: "F = (let withHitRate = (if length hs > 1
                     then P(''hitRate_trend'' \<mapsto> Some (hs ! (length hs - 1) - hs ! 0)) else P)
                in if length ts > 1
                   then withHitRate(''throughput_trend'' \<mapsto> Some (ts ! (length ts - 1) - ts ! 0))
                   else withHitRate)"
    unfolding F_def computeSessionFeatures_def perRound_eq P_def hs_def ts_def Let_def ..
  show "F ''hitRate_trend'' = (if length hs > 1 then Some (Some (last hs - hd hs)) else None)"
    unfolding F using Ph by (simp add: Let_def last_minus_first)
  show "F ''throughput_trend'' = (if length ts > 1 then Some (Some (last ts - hd ts)) else None)"
    unfolding F using Pt by (simp add: Let_def last_minus_first)
qed

lemma session_round_absent:
  assumes "computeRoundFeatures d sid n = None" and "n \<in> {1, 2, 3}"
    and "prefix (''r'' @ roundDigit n @ ''_'') k"
  shows "computeSessionFeatures d sid k = None"
proof -
  define P where "P = copyRound 3 (computeRoundFeatures d sid 3)
      (copyRound 2 (computeRoundFeatures d sid 2)
        (copyRound 1 (computeRoundFeatures d sid 1) Map.empty))"
  obtain rest where k: "k = ''r'' @ roundDigit n @ ''_'' @ rest"
    using assms(3) by (auto simp: prefix_def)
  have other: "\<And>key. k \<noteq> roundKey r key" if "r \<in> {1, 2, 3}" "r \<noteq> n" for r
    using that assms(2) unfolding k by (auto simp: roundKey_def roundDigit_def)
  have "P k = None"
    using assms(1,2) other unfolding P_def
    by (auto simp: copyRound_None copyRound_other)
  moreover have "k \<noteq> ''hitRate_trend''" "k \<noteq> ''throughput_trend''"
    unfolding k by simp_all
  ultimately show ?thesis
    unfolding computeSessionFeatures_def perRound_eq P_def [symmetric] Let_def by simp
qed

text \<open>
  C7. The session features hold \<open>hitRate_trend\<close> exactly when at least two rounds have a
  non-null hit rate, and \<open>throughput_trend\<close> exactly when at least two rounds have a non-null
  mean throughput; each trend is the last available round value minus the first available one
  (the values of the rounds 1, 2, 3 in this order, nulls left out). No key with the prefix of
  a round without attempts is present.
\<close>

theorem C7_session_trends:
  fixes d sid
  defines "F \<equiv> computeSessionFeatures d sid"
  defines "hs \<equiv> nonNull [optProp (computeRoundFeatures d sid 1) ''hitRate'',
                         optProp (computeRoundFeatures d sid 2) ''hitRate'',
                         optProp (computeRoundFeatures d sid 3) ''hitRate'']"
  defines "ts \<equiv> nonNull [optProp (computeRoundFeatures d sid 1) ''throughput_mean'',
                         optProp (computeRoundFeatures d sid 2) ''throughput_mean'',
                         optProp (computeRoundFeatures d sid 3) ''throughput_mean'']"
  shows "(''hitRate_trend'' \<in> dom F \<longleftrightarrow> length hs \<ge> 2)
     \<and> (length hs \<ge> 2 \<longrightarrow> F ''hitRate_trend'' = Some (Some (last hs - hd hs)))
     \<and> (''throughput_trend'' \<in> dom F \<longleftrightarrow> length ts \<ge> 2)
     \<and> (length ts \<ge> 2 \<longrightarrow> F ''throughput_trend'' = Some (Some (last ts - hd ts)))
     \<and> (\<forall>n \<in> {1, 2, 3}. computeRoundFeatures d sid n = None \<longrightarrow>
          (\<forall>k. prefix (''r'' @ roundDigit n @ ''_'') k \<longrightarrow> k \<notin> dom F))"
proof -
  note t = session_trend_lookup [of d sid, folded F_def hs_def ts_def]
  have "\<forall>n \<in> {1, 2, 3}. computeRoundFeatures d sid n = None \<longrightarrow>
          (\<forall>k. prefix (''r'' @ roundDigit n @ ''_'') k \<longrightarrow> k \<notin> dom F)"
    unfolding F_def using session_round_absent [of d sid] by (auto simp: domIff)
  then show ?thesis using t by (auto simp: domIff)
qed


lemma dbOf_round_props:
  assumes "filter (\<lambda>a. a_round a = r) as \<noteq> []"
  defines "attempts \<equiv> filter (\<lambda>a. a_round a = r) as"
  shows "optProp (computeRoundFeatures (dbOf as) ''s1'' r) ''hitRate''
         = Some (real (length (hitsOf attempts)) / real (length attempts))"
    and "optProp (computeRoundFeatures (dbOf as) ''s1'' r) ''throughput_mean''
         = mean (valuesOver (\<lambda>a. f_throughput (a_fitts a)) (hitsOf attempts))"
proof -
  have "computeRoundFeatures (dbOf as) ''s1'' r \<noteq> None"
    unfolding computeRoundFeatures_None_iff getSessionAttempts_dbOf using assms(1) .
  then obtain rf where rf: "computeRoundFeatures (dbOf as) ''s1'' r = Some rf" by blast
  note eq = computeRoundFeatures_Some [OF rf, unfolded getSessionAttempts_dbOf,
      folded attempts_def]
  have "getProp rf ''hitRate'' = Some (real (length (hitsOf attempts)) / real (length attempts))"
    by (subst eq) (simp add: getProp_def)
  then show "optProp (computeRoundFeatures (dbOf as) ''s1'' r) ''hitRate''
         = Some (real (length (hitsOf attempts)) / real (length attempts))"
    by (simp add: rf optProp_def)
  have "getProp rf ''throughput_mean''
        = mean (valuesOver (\<lambda>a. f_throughput (a_fitts a)) (hitsOf attempts))"
    by (subst eq) (simp add: getProp_def)
  then show "optProp (computeRoundFeatures (dbOf as) ''s1'' r) ''throughput_mean''
         = mean (valuesOver (\<lambda>a. f_throughput (a_fitts a)) (hitsOf attempts))"
    by (simp add: rf optProp_def)
qed

lemma oneAndThree_round2: "computeRoundFeatures roundsOneAndThree ''s1'' 2 = None"
  unfolding computeRoundFeatures_None_iff roundsOneAndThree_def getSessionAttempts_dbOf
  by (simp add: mkAttempt_sel)

lemma oneAndThree_props:
  "optProp (computeRoundFeatures roundsOneAndThree ''s1'' 1) ''hitRate'' = Some 0.5"
  "optProp (computeRoundFeatures roundsOneAndThree ''s1'' 2) ''hitRate'' = None"
  "optProp (computeRoundFeatures roundsOneAndThree ''s1'' 3) ''hitRate'' = Some 1"
  "optProp (computeRoundFeatures roundsOneAndThree ''s1'' 1) ''throughput_mean'' = Some 2"
  "optProp (computeRoundFeatures roundsOneAndThree ''s1'' 2) ''throughput_mean'' = None"
  "optProp (computeRoundFeatures roundsOneAndThree ''s1'' 3) ''throughput_mean'' = Some 5"
proof -
  show "optProp (computeRoundFeatures roundsOneAndThree ''s1'' 1) ''hitRate'' = Some 0.5"
    unfolding roundsOneAndThree_def
    by (subst dbOf_round_props) (simp_all add: mkAttempt_sel hitsOf_def)
  show "optProp (computeRoundFeatures roundsOneAndThree ''s1'' 3) ''hitRate'' = Some 1"
    unfolding roundsOneAndThree_def
    by (subst dbOf_round_props) (simp_all add: mkAttempt_sel hitsOf_def)
  show "optProp (computeRoundFeatures roundsOneAndThree ''s1'' 1) ''throughput_mean'' = Some 2"
    unfolding roundsOneAndThree_def
    by (subst dbOf_round_props)
      (simp_all add: mkAttempt_sel hitsOf_def valuesOver_def nonNull_simps mean_one)
  show "optProp (computeRoundFeatures roundsOneAndThree ''s1'' 3) ''throughput_mean'' = Some 5"
    unfolding roundsOneAndThree_def
    by (subst dbOf_round_props)
      (simp_all add: mkAttempt_sel hitsOf_def valuesOver_def nonNull_simps mean_one)
  show "optProp (computeRoundFeatures roundsOneAndThree ''s1'' 2) ''hitRate'' = None"
    "optProp (computeRoundFeatures roundsOneAndThree ''s1'' 2) ''throughput_mean'' = None"
    unfolding oneAndThree_round2 by (simp_all add: optProp_def)
qed

theorem C7_session_trends_witness:
  "computeRoundFeatures roundsOneAndThree ''s1'' 2 = None
   \<and> computeSessionFeatures roundsOneAndThree ''s1'' ''hitRate_trend'' = Some (Some 0.5)
   \<and> computeSessionFeatures roundsOneAndThree ''s1'' ''throughput_trend'' = Some (Some 3)
   \<and> \<not> (\<exists>k. prefix ''r2_'' k \<and> k \<in> dom (computeSessionFeatures roundsOneAndThree ''s1''))"
proof -
  note c7 = C7_session_trends [of roundsOneAndThree "''s1''", unfolded oneAndThree_props
      nonNull_simps]
  have "roundDigit 2 = ''2''" by (simp add: roundDigit_def)
  with c7 oneAndThree_round2 show ?thesis
    by simp
qed

section \<open>Properties of the pointer trace store\<close>

lemma pushSample_sel:
  "tb_sessionId (pushSample b x) = tb_sessionId b"
  "tb_bucketNumber (pushSample b x) = tb_bucketNumber b"
  "tb_samples (pushSample b x) = tb_samples b @ [x]"
  "tb_count (pushSample b x) = Suc (length (tb_samples b))"
  by (simp_all add: pushSample_def Let_def)

lemma createTrace_ok:
  assumes "findSession d sid = Some ss" and "sid \<noteq> []"
  shows "createTrace d sid uid num
         = Inr (d\<lparr>traceBuckets := traceBuckets d @
                  [\<lparr>tb_sessionId = sid, tb_userId = uid, tb_bucketNumber = num, tb_count = 0,
                    tb_isFull = False, tb_firstTms = 0, tb_lastTms = 0, tb_samples = []\<rparr>]\<rparr>,
                length (traceBuckets d),
                \<lparr>tb_sessionId = sid, tb_userId = uid, tb_bucketNumber = num, tb_count = 0,
                    tb_isFull = False, tb_firstTms = 0, tb_lastTms = 0, tb_samples = []\<rparr>)"
  using assms by (simp add: createTrace_def Let_def)

lemma saveTrace_valid:
  assumes "tb_sessionId b \<noteq> []" and "list_all validSample (tb_samples b)"
  shows "saveTrace d i b = Inr (d\<lparr>traceBuckets := (traceBuckets d)[i := b]\<rparr>)"
  using assms by (simp add: saveTrace_def validTraceBucket_def)

lemma findSession_traceBuckets_update:
  "findSession (d\<lparr>traceBuckets := bs\<rparr>) sid = findSession d sid"
  by (simp add: findSession_def)

text \<open>
  On valid samples the loop appends what is submitted: it closes buckets of exactly \<open>cap\<close>
  samples and leaves a current bucket, numbered above all of them, that holds the rest.
\<close>

lemma addSamplesLoop_chunks:
  assumes fs: "findSession d sid = Some ss" and tb: "traceBuckets d = W @ [s]"
    and cap: "0 < cap" and sid: "sid \<noteq> []" and vxs: "list_all validSample xs"
    and bs: "tb_sessionId b = sid" and bc: "tb_count b = length (tb_samples b)"
    and bl: "length (tb_samples b) \<le> cap" and bv: "list_all validSample (tb_samples b)"
  shows "\<exists>d' M s' b'. addSamplesLoop cap sid uid xs d (length W) b = (d', Inr (length (W @ M), b'))
      \<and> traceBuckets d' = W @ M @ [s']
      \<and> tb_sessionId b' = sid
      \<and> list_all validSample (tb_samples b')
      \<and> length (tb_samples b') \<le> cap
      \<and> (tb_samples b \<noteq> [] \<or> xs \<noteq> [] \<longrightarrow> tb_samples b' \<noteq> [])
      \<and> tb_bucketNumber b \<le> tb_bucketNumber b'
      \<and> (\<forall>m \<in> set M. tb_sessionId m = sid \<and> length (tb_samples m) = cap
            \<and> tb_bucketNumber b \<le> tb_bucketNumber m \<and> tb_bucketNumber m < tb_bucketNumber b')
      \<and> sorted (map tb_bucketNumber M)
      \<and> concat (map tb_samples M) @ tb_samples b' = tb_samples b @ xs
      \<and> length M * cap + length (tb_samples b') = length (tb_samples b) + length xs"
  using fs tb vxs bs bc bl bv
proof (induction xs arbitrary: d W s b)
  case Nil
  show ?case
    apply (rule exI [of _ d], rule exI [of _ "[]"], rule exI [of _ s], rule exI [of _ b])
    using Nil by simp
next
  case (Cons x xs)
  have vx: "validSample x" and vrest: "list_all validSample xs"
    using Cons.prems(3) by simp_all
  show ?case
  proof (cases "tb_count b \<ge> cap")
    case False
    let ?b = "pushSample b x"
    have pre: "tb_sessionId ?b = sid" "tb_count ?b = length (tb_samples ?b)"
      "length (tb_samples ?b) \<le> cap" "list_all validSample (tb_samples ?b)"
      using Cons.prems False vx by (simp_all add: pushSample_sel)
    from Cons.IH [OF Cons.prems(1) Cons.prems(2) vrest pre]
    obtain d' M s' b' where
      run: "addSamplesLoop cap sid uid xs d (length W) ?b = (d', Inr (length (W @ M), b'))"
      and rest: "traceBuckets d' = W @ M @ [s']" "tb_sessionId b' = sid"
        "list_all validSample (tb_samples b')"
        "length (tb_samples b') \<le> cap" "tb_samples ?b \<noteq> [] \<or> xs \<noteq> [] \<longrightarrow> tb_samples b' \<noteq> []"
        "tb_bucketNumber ?b \<le> tb_bucketNumber b'"
        "\<forall>m \<in> set M. tb_sessionId m = sid \<and> length (tb_samples m) = cap
            \<and> tb_bucketNumber ?b \<le> tb_bucketNumber m \<and> tb_bucketNumber m < tb_bucketNumber b'"
        "sorted (map tb_bucketNumber M)"
        "concat (map tb_samples M) @ tb_samples b' = tb_samples ?b @ xs"
        "length M * cap + length (tb_samples b') = length (tb_samples ?b) + length xs"
      by blast
    have nonempty: "tb_samples b' \<noteq> []"
      using rest(5) by (simp add: pushSample_sel)
    show ?thesis
      apply (rule exI [of _ d'], rule exI [of _ M], rule exI [of _ s'], rule exI [of _ b'])
      using run rest nonempty False by (simp add: pushSample_sel)
  next
    case True
    let ?b1 = "b\<lparr>tb_isFull := True\<rparr>"
    let ?d1 = "d\<lparr>traceBuckets := (traceBuckets d)[length W := ?b1]\<rparr>"
    let ?new = "\<lparr>tb_sessionId = sid, tb_userId = uid, tb_bucketNumber = tb_bucketNumber ?b1 + 1,
       tb_count = 0, tb_isFull = False, tb_firstTms = 0, tb_lastTms = 0, tb_samples = []\<rparr>"
    let ?d2 = "?d1\<lparr>traceBuckets := traceBuckets ?d1 @ [?new]\<rparr>"
    let ?b = "pushSample ?new x"
    have full: "length (tb_samples b) = cap" using True Cons.prems by simp
    have sv: "saveTrace d (length W) ?b1 = Inr ?d1"
      using saveTrace_valid [of ?b1 d "length W"] Cons.prems sid by simp
    have tb1: "traceBuckets ?d1 = W @ [?b1]"
      using Cons.prems(2) by simp
    have fs1: "findSession ?d1 sid = Some ss"
      using Cons.prems(1) by (simp add: findSession_traceBuckets_update)
    have cr: "createTrace ?d1 sid uid (tb_bucketNumber ?b1 + 1) = Inr (?d2, length (W @ [?b1]), ?new)"
      using createTrace_ok [OF fs1 sid, of uid "tb_bucketNumber ?b1 + 1"] tb1 by simp
    have fs2: "findSession ?d2 sid = Some ss"
      using fs1 by (simp add: findSession_traceBuckets_update)
    have tb2: "traceBuckets ?d2 = (W @ [?b1]) @ [?new]"
      using tb1 by simp
    have pre: "tb_sessionId ?b = sid" "tb_count ?b = length (tb_samples ?b)"
      "length (tb_samples ?b) \<le> cap" "list_all validSample (tb_samples ?b)"
      using cap vx by (simp_all add: pushSample_sel)
    from Cons.IH [OF fs2 tb2 vrest pre]
    obtain d' M s' b' where
      run: "addSamplesLoop cap sid uid xs ?d2 (length (W @ [?b1])) ?b
            = (d', Inr (length ((W @ [?b1]) @ M), b'))"
      and rest: "traceBuckets d' = (W @ [?b1]) @ M @ [s']" "tb_sessionId b' = sid"
        "list_all validSample (tb_samples b')"
        "length (tb_samples b') \<le> cap" "tb_samples ?b \<noteq> [] \<or> xs \<noteq> [] \<longrightarrow> tb_samples b' \<noteq> []"
        "tb_bucketNumber ?b \<le> tb_bucketNumber b'"
        "\<forall>m \<in> set M. tb_sessionId m = sid \<and> length (tb_samples m) = cap
            \<and> tb_bucketNumber ?b \<le> tb_bucketNumber m \<and> tb_bucketNumber m < tb_bucketNumber b'"
        "sorted (map tb_bucketNumber M)"
        "concat (map tb_samples M) @ tb_samples b' = tb_samples ?b @ xs"
        "length M * cap + length (tb_samples b') = length (tb_samples ?b) + length xs"
      by blast
    have nonempty: "tb_samples b' \<noteq> []"
      using rest(5) by (simp add: pushSample_sel)
    have step: "addSamplesLoop cap sid uid (x # xs) d (length W) b
                = addSamplesLoop cap sid uid xs ?d2 (length (W @ [?b1])) ?b"
      using True cr sv by (simp add: Let_def)
    show ?thesis
      apply (rule exI [of _ d'], rule exI [of _ "?b1 # M"], rule exI [of _ s'], rule exI [of _ b'])
      using step run rest nonempty full Cons.prems(4)
      by (auto simp: pushSample_sel)
  qed
qed

lemma findActiveTrace_none:
  assumes "\<forall>b \<in> set (traceBuckets d). tb_sessionId b \<noteq> sid"
  shows "findActiveTrace d sid = None"
proof -
  have "filter (\<lambda>(i, b). tb_sessionId b = sid \<and> \<not> tb_isFull b) (enumerate 0 (traceBuckets d)) = []"
    using assms by (auto simp: filter_empty_conv in_set_enumerate_eq)
  then show ?thesis by (simp add: findActiveTrace_def pickLatest_def)
qed

lemma ceiling_chunks:
  assumes "0 < cap" and "0 < c" and "c \<le> cap" and "k * cap + c = n"
  shows "nat \<lceil>real n / real cap\<rceil> = k + 1"
proof -
  have eq: "real n / real cap = real k + real c / real cap"
    using assms(1,4) by (auto simp: field_simps)
  have "0 < real c / real cap" "real c / real cap \<le> 1"
    using assms(1-3) by simp_all
  then have "\<lceil>real n / real cap\<rceil> = int k + 1"
    unfolding eq by (intro ceiling_unique) simp_all
  then show ?thesis by simp
qed

text \<open>
  C6. Appending a non-empty batch of \<open>N\<close> samples that satisfy the schema, for an existing
  session that has no buckets yet, with a bucket capacity \<open>cap > 0\<close>, leaves exactly
  \<open>ceil (N / cap)\<close> buckets for the session, each with at most \<open>cap\<close> samples, and
  \<open>getSessionSamples\<close> returns the samples in the order of submission.
\<close>

theorem C6_monotonic_chunking:
  assumes "0 < cap" and "sid \<noteq> []" and "findSession d sid \<noteq> None"
    and "\<forall>b \<in> set (traceBuckets d). tb_sessionId b \<noteq> sid"
    and "samplesArray \<noteq> []" and "\<forall>s \<in> set samplesArray. validSample s"
  shows "\<exists>d' b. addSamplesCap cap d sid uid samplesArray = (d', Inr b)
    \<and> length (filter (\<lambda>c. tb_sessionId c = sid) (traceBuckets d'))
        = nat \<lceil>real (length samplesArray) / real cap\<rceil>
    \<and> (\<forall>c \<in> set (filter (\<lambda>c. tb_sessionId c = sid) (traceBuckets d')).
          length (tb_samples c) \<le> cap)
    \<and> getSessionSamples d' sid None = samplesArray"
proof -
  from assms(3) obtain ss where ss: "findSession d sid = Some ss" by blast
  have valid: "list_all validSample samplesArray"
    using assms(6) by (simp add: list_all_iff)
  let ?new = "\<lparr>tb_sessionId = sid, tb_userId = uid, tb_bucketNumber = 1, tb_count = 0,
       tb_isFull = False, tb_firstTms = 0, tb_lastTms = 0, tb_samples = []\<rparr>"
  let ?W = "traceBuckets d"
  let ?d1 = "d\<lparr>traceBuckets := ?W @ [?new]\<rparr>"
  have cr: "createTrace d sid uid 1 = Inr (?d1, length ?W, ?new)"
    using createTrace_ok [OF ss assms(2), of uid 1] by simp
  have fs1: "findSession ?d1 sid = Some ss"
    using ss by (simp add: findSession_traceBuckets_update)
  have tb1: "traceBuckets ?d1 = ?W @ [?new]" by simp
  from addSamplesLoop_chunks [OF fs1 tb1 assms(1) assms(2) valid, of ?new uid]
  obtain d' M s' b' where
    run: "addSamplesLoop cap sid uid samplesArray ?d1 (length ?W) ?new
          = (d', Inr (length (?W @ M), b'))"
    and tb: "traceBuckets d' = ?W @ M @ [s']"
    and b': "tb_sessionId b' = sid" "list_all validSample (tb_samples b')"
      "length (tb_samples b') \<le> cap" "tb_samples b' \<noteq> []"
    and M: "\<forall>m \<in> set M. tb_sessionId m = sid \<and> length (tb_samples m) = cap
            \<and> tb_bucketNumber m < tb_bucketNumber b'"
    and srt: "sorted (map tb_bucketNumber M)"
    and cat: "concat (map tb_samples M) @ tb_samples b' = samplesArray"
    and cnt: "length M * cap + length (tb_samples b') = length samplesArray"
    using assms(5) by auto
  let ?d'' = "d'\<lparr>traceBuckets := (traceBuckets d')[length (?W @ M) := b']\<rparr>"
  have sv: "saveTrace d' (length (?W @ M)) b' = Inr ?d''"
    using saveTrace_valid [of b' d' "length (?W @ M)"] b'(1,2) assms(2) by simp
  have res: "addSamplesCap cap d sid uid samplesArray = (?d'', Inr b')"
    using assms(5) ss findActiveTrace_none [OF assms(4)] cr run sv
    by (simp add: addSamplesCap_def)
  have final: "traceBuckets ?d'' = ?W @ M @ [b']"
    using tb by (simp add: list_update_append)
  have "filter (\<lambda>c. tb_sessionId c = sid) ?W = []"
    using assms(4) by (auto simp: filter_empty_conv)
  moreover have "filter (\<lambda>c. tb_sessionId c = sid) M = M"
    using M by (auto simp: filter_id_conv)
  ultimately have chunks: "filter (\<lambda>c. tb_sessionId c = sid) (traceBuckets ?d'') = M @ [b']"
    unfolding final using b'(1) by simp
  have n: "length (M @ [b']) = nat \<lceil>real (length samplesArray) / real cap\<rceil>"
    using ceiling_chunks [OF assms(1) _ b'(3) cnt] b'(4) by simp
  have bound: "\<forall>c \<in> set (M @ [b']). length (tb_samples c) \<le> cap"
    using M b'(3) by auto
  have "sorted (map tb_bucketNumber (M @ [b']))"
    using srt M by (auto simp: sorted_append less_imp_le)
  then have "sort_key tb_bucketNumber (M @ [b']) = M @ [b']"
    by (rule sort_key_id_if_sorted)
  then have "getSessionSamples ?d'' sid None = samplesArray"
    unfolding getSessionSamples_def chunks using cat by simp
  with res n bound show ?thesis
    unfolding chunks [symmetric] by blast
qed

lemma length_straightLine: "length straightLine = 5"
  by (simp add: straightLine_def)

lemma validSample_sampleAt: "validSample (sampleAt t a b)"
  by (simp add: validSample_def sampleAt_def)

theorem C6_monotonic_chunking_witness:
  "(0::nat) < 2 \<and> ''s1'' \<noteq> [] \<and> findSession sessionOnly ''s1'' \<noteq> None
   \<and> traceBuckets sessionOnly = [] \<and> straightLine \<noteq> []
   \<and> list_all validSample straightLine
   \<and> (\<exists>d' b. addSamplesCap 2 sessionOnly ''s1'' None straightLine = (d', Inr b)
        \<and> length (filter (\<lambda>c. tb_sessionId c = ''s1'') (traceBuckets d')) = 3
        \<and> list_all (\<lambda>c. length (tb_samples c) \<le> 2)
             (filter (\<lambda>c. tb_sessionId c = ''s1'') (traceBuckets d'))
        \<and> getSessionSamples d' ''s1'' None = straightLine)"
proof -
  have s: "findSession sessionOnly ''s1'' \<noteq> None"
    by (simp add: findSession_def sessionOnly_def)
  have e: "traceBuckets sessionOnly = []" by (simp add: sessionOnly_def)
  have ne: "straightLine \<noteq> []" by (simp add: straightLine_def)
  have v: "\<forall>s \<in> set straightLine. validSample s"
    by (simp add: straightLine_def validSample_sampleAt)
  have none: "\<forall>b \<in> set (traceBuckets sessionOnly). tb_sessionId b \<noteq> ''s1''"
    by (simp add: e)
  have three: "nat \<lceil>real (length straightLine) / real (2::nat)\<rceil> = 3"
    unfolding length_straightLine by (simp add: ceiling_eq_iff)
  from C6_monotonic_chunking [OF _ _ s none ne v, of 2 None, unfolded three]
  show ?thesis using s e ne v by (simp add: list_all_iff)
qed

text \<open>
  A sample whose round is outside 1 to 3 is rejected when the bucket is saved: \<open>addSamples\<close>
  raises, and the bucket it created stays in the collection without samples.
\<close>

lemma addSamples_invalid_round:
  "addSamples sessionOnly ''s1'' None [(sampleAt 0 0 0)\<lparr>s_round := 7\<rparr>]
   = (sessionOnly\<lparr>traceBuckets :=
        [\<lparr>tb_sessionId = ''s1'', tb_userId = None, tb_bucketNumber = 1, tb_count = 0,
          tb_isFull = False, tb_firstTms = 0, tb_lastTms = 0, tb_samples = []\<rparr>]\<rparr>,
      Inl ValidationError)"
  by (simp add: addSamples_def addSamplesCap_def MAX_TRACE_SAMPLES_PER_BUCKET_def findSession_def
      sessionOnly_def findActiveTrace_def pickLatest_def createTrace_def Let_def saveTrace_def
      validTraceBucket_def validSample_def pushSample_def sampleAt_def)

section \<open>Properties of the attempt endpoint\<close>

lemma logAttempts_accepts:
  assumes "b_sessionId body = Some sid" and "sid \<noteq> []"
    and "b_attempts body = Some attempts" and "attempts \<noteq> []"
  shows "logAttempts body
         = (\<lparr>status = 200, success = True, received = Some (length attempts),
              processing = Some True, error = None\<rparr>,
            Some \<lparr>k_sessionId = sid, k_userId = b_userId body, k_attempts = attempts\<rparr>)"
  using assms by (simp add: logAttempts_def)

lemma addAttempts_missing_session:
  assumes "attempts \<noteq> []" and "findSession d sid = None"
  shows "addAttempts d sid uid attempts = (d, Inl (missingSession sid))"
  using assms by (simp add: addAttempts_def addAttemptsCap_def)

lemma logAttempts_never_404: "status (fst (logAttempts body)) = 200 \<or> status (fst (logAttempts body)) = 400"
  by (simp add: logAttempts_def split: option.splits)

text \<open>
  C1 (amended). A batch that passes validation (a non-empty session id and a non-empty
  array) for a session that does not exist is acknowledged to the caller with success: the
  handler does not look the session up. The queued task then fails in \<open>addAttempts\<close> with the
  unknown-session error, which is logged and not returned, and the database is left as it
  was: no attempt is written.
\<close>

theorem C1_unknown_session:
  assumes "b_sessionId body = Some sid" and "sid \<noteq> []"
    and "b_attempts body = Some attempts" and "attempts \<noteq> []"
    and "findSession d sid = None"
  shows "\<exists>task. logAttempts body
           = (\<lparr>status = 200, success = True, received = Some (length attempts),
                processing = Some True, error = None\<rparr>, Some task)
     \<and> addAttempts d (k_sessionId task) (k_userId task) (k_attempts task)
         = (d, Inl (missingSession sid))
     \<and> sublist ''does not exist'' (errorMessage (missingSession sid))
     \<and> runAttemptsTask d task
         = (d, LogError ''Error processing motor attempts:'' sid (errorMessage (missingSession sid)))"
proof -
  let ?task = "\<lparr>k_sessionId = sid, k_userId = b_userId body, k_attempts = attempts\<rparr>"
  have acc: "logAttempts body
           = (\<lparr>status = 200, success = True, received = Some (length attempts),
                processing = Some True, error = None\<rparr>, Some ?task)"
    using assms(1-4) by (rule logAttempts_accepts)
  have add: "addAttempts d sid (b_userId body) attempts = (d, Inl (missingSession sid))"
    using assms(4,5) by (rule addAttempts_missing_session)
  have msg: "sublist ''does not exist'' (errorMessage (missingSession sid))"
  proof -
    have "errorMessage (missingSession sid)
          = (''Session with sessionId '' @ [CHR 0x22] @ sid @ [CHR 0x22] @ '' '')
            @ ''does not exist'' @ ''.''"
      by (simp add: errorMessage_def missingSession_def)
    then show ?thesis by (metis sublist_appendI)
  qed
  have run: "runAttemptsTask d ?task
         = (d, LogError ''Error processing motor attempts:'' sid (errorMessage (missingSession sid)))"
    by (simp add: runAttemptsTask_def add)
  show ?thesis
    apply (rule exI [of _ ?task])
    using acc add msg run by simp
qed

text \<open>
  C1 as stated fails: for a batch naming a session that does not exist, the response to the
  caller is the success acknowledgment, not an unknown-session error.
\<close>

theorem C1_counterexample:
  "findSession noSessions ''ghost'' = None
   \<and> status (fst (logAttempts ghostBatch)) = 200
   \<and> success (fst (logAttempts ghostBatch)) = True
   \<and> error (fst (logAttempts ghostBatch)) = None"
  by (simp add: findSession_def noSessions_def logAttempts_def ghostBatch_def)

theorem C1_unknown_session_witness:
  "b_sessionId ghostBatch = Some ''ghost'' \<and> ''ghost'' \<noteq> []
   \<and> b_attempts ghostBatch = Some [clickAttempt] \<and> [clickAttempt] \<noteq> []
   \<and> findSession sessionOnly ''ghost'' = None
   \<and> (\<exists>task. logAttempts ghostBatch
           = (\<lparr>status = 200, success = True, received = Some 1,
                processing = Some True, error = None\<rparr>, Some task)
        \<and> fst (runAttemptsTask sessionOnly task) = sessionOnly
        \<and> attemptBuckets (fst (runAttemptsTask sessionOnly task)) = [])"
proof -
  have h: "b_sessionId ghostBatch = Some ''ghost''" "''ghost'' \<noteq> []"
    "b_attempts ghostBatch = Some [clickAttempt]" "[clickAttempt] \<noteq> []"
    "findSession sessionOnly ''ghost'' = None"
    by (simp_all add: ghostBatch_def findSession_def sessionOnly_def)
  from C1_unknown_session [OF h]
  obtain task where "logAttempts ghostBatch
           = (\<lparr>status = 200, success = True, received = Some (length [clickAttempt]),
                processing = Some True, error = None\<rparr>, Some task)"
    and "runAttemptsTask sessionOnly task
         = (sessionOnly, LogError ''Error processing motor attempts:'' ''ghost''
              (errorMessage (missingSession ''ghost'')))"
    by blast
  moreover have "attemptBuckets sessionOnly = []" by (simp add: sessionOnly_def)
  ultimately show ?thesis using h by simp
qed

text \<open>
  A clicked attempt without a click time, for a session that has samples: the extractor's
  reaction time is NaN, the batch fails when the bucket is saved, and the bucket that
  \<open>addAttempts\<close> created stays in the collection without attempts.
\<close>

lemma addAttempts_missing_click_time:
  "addAttempts sessionWithTrace ''s1'' None
     [clickAttempt\<lparr>ra_click := Some \<lparr>c_clicked = True, c_hit = True, c_missType = ''hit'',
                                      c_tms = None, c_x = None, c_y = None\<rparr>\<rparr>]
   = (sessionWithTrace\<lparr>attemptBuckets :=
        [\<lparr>ab_sessionId = ''s1'', ab_userId = None, ab_bucketNumber = 1, ab_count = 0,
          ab_isFull = False, ab_attempts = []\<rparr>]\<rparr>,
      Inl ValidationError)"
proof -
  let ?a = "clickAttempt\<lparr>ra_click := Some \<lparr>c_clicked = True, c_hit = True, c_missType = ''hit'',
                                      c_tms = None, c_x = None, c_y = None\<rparr>\<rparr>"
  let ?new = "\<lparr>ab_sessionId = ''s1'', ab_userId = None, ab_bucketNumber = 1, ab_count = 0,
          ab_isFull = False, ab_attempts = []\<rparr>"
  let ?d1 = "sessionWithTrace\<lparr>attemptBuckets := [?new]\<rparr>"
  have samples: "getSessionSamples sessionWithTrace ''s1'' None = [sampleAt 1000 0 0]"
    by (simp add: getSessionSamples_def sessionWithTrace_def)
  have fs: "findSession sessionWithTrace ''s1''
            = Some \<lparr>sessionId = ''s1'', userId = None, participantId = ''p1''\<rparr>"
    by (simp add: findSession_def sessionWithTrace_def)
  have act: "findActiveAttempt sessionWithTrace ''s1'' = None"
    by (simp add: findActiveAttempt_def pickLatest_def sessionWithTrace_def)
  have cr: "createAttemptBucket sessionWithTrace ''s1'' None 1 = Inr (?d1, 0, ?new)"
    by (simp add: createAttemptBucket_def fs Let_def) (simp add: sessionWithTrace_def)
  have nan: "a_notANumber (enrichAttempt [sampleAt 1000 0 0] None ?a)"
    by (simp add: enrichAttempt_def clickedOf_def clickTmsOf_def)
  have en: "enrichAttempts [sampleAt 1000 0 0] [?a] = [enrichAttempt [sampleAt 1000 0 0] None ?a]"
    by (simp add: enrichAttempts_def)
  have sv: "saveAttemptBucket ?d1 0 (pushAttempt ?new (enrichAttempt [sampleAt 1000 0 0] None ?a))
            = Inl ValidationError"
    using nan by (simp add: saveAttemptBucket_def validAttemptBucket_def validAttempt_def
        pushAttempt_def Let_def)
  show ?thesis
    unfolding addAttempts_def addAttemptsCap_def
    by (simp add: fs samples act cr en sv MAX_ATTEMPTS_PER_BUCKET_def del: One_nat_def)
qed

end
